theory Spec2Isabelle
  imports Complex_Main "HOL-Library.Word"
begin

section \<open>The OpenGL and GLFW interface seen by application.cpp\<close>

text \<open>
  The program of \<^verbatim>\<open>src/application.cpp\<close> is a straight line of calls into two native
  libraries (OpenGL through GLEW, and GLFW) around one \<^verbatim>\<open>while\<close> loop. Its behaviour is
  the sequence of calls it makes, the text it writes to \<^verbatim>\<open>std::cout\<close> and the value
  \<^verbatim>\<open>main\<close> returns. The embedding therefore records every library call with its
  arguments in a trace, and takes the libraries' answers from a \<open>driver\<close>: for every
  call that hands a value back, a function from the history of calls made so far (the
  call being answered last) to that value. Any deterministic driver, window system and
  user is such a function.
\<close>

subsection \<open>C types\<close>

type_synonym GLuint = "32 word"
type_synonym GLenum = "32 word"
type_synonym GLbitfield = "32 word"
type_synonym GLint = "32 word"
type_synonym GLsizei = "32 word"
type_synonym GLboolean = "8 word"

text \<open>
  \<^verbatim>\<open>int\<close>, \<^verbatim>\<open>GLint\<close> and \<^verbatim>\<open>GLsizei\<close> are signed: a word of these types is read with
  \<open>sint\<close> wherever its sign matters. Converting between \<^verbatim>\<open>int\<close> and \<^verbatim>\<open>unsigned int\<close>
  keeps the 32 bits, so the conversions of the source are not written.
\<close>

text \<open>
  A \<^verbatim>\<open>float\<close> literal is carried as the decimal number written in the source. The
  program does no arithmetic on floats: it only hands them to the library.
\<close>

type_synonym GLfloat = real

text \<open>A pointer to an opaque library object; \<^verbatim>\<open>NULL\<close> is \<open>None\<close> of the option type.\<close>

datatype GLFWwindow = Window nat
datatype GLFWmonitor = Monitor nat

subsection \<open>Macros of the library headers\<close>

text \<open>
  \<^verbatim>\<open>GL/glew.h\<close> and \<^verbatim>\<open>GLFW/glfw3.h\<close> are included by the source and are not part of
  the repository. The macros the source uses have the values the OpenGL registry
  assigns them.
\<close>

definition GL_FALSE :: "'a::len word" where "GL_FALSE = 0"
definition GL_TRIANGLES :: GLenum where "GL_TRIANGLES = 0x0004"
definition GL_FLOAT :: GLenum where "GL_FLOAT = 0x1406"
definition GL_VERSION :: GLenum where "GL_VERSION = 0x1F02"
definition GL_COLOR_BUFFER_BIT :: GLbitfield where "GL_COLOR_BUFFER_BIT = 0x00004000"
definition GL_ARRAY_BUFFER :: GLenum where "GL_ARRAY_BUFFER = 0x8892"
definition GL_STATIC_DRAW :: GLenum where "GL_STATIC_DRAW = 0x88E4"
definition GL_FRAGMENT_SHADER :: GLenum where "GL_FRAGMENT_SHADER = 0x8B30"
definition GL_VERTEX_SHADER :: GLenum where "GL_VERTEX_SHADER = 0x8B31"
definition GL_COMPILE_STATUS :: GLenum where "GL_COMPILE_STATUS = 0x8B81"
definition GL_INFO_LOG_LENGTH :: GLenum where "GL_INFO_LOG_LENGTH = 0x8B84"

definition sizeof_float :: nat where "sizeof_float = 4"

subsection \<open>Library calls\<close>

text \<open>
  One constructor for each library function the source calls, with the arguments the
  source passes (output parameters are answered by the driver). \<open>GlDrawElements\<close> is the
  indexed draw of the OpenGL interface; the source never calls it, and it is listed so
  that the kind of a draw call can be told.
\<close>

datatype call =
    GlCreateShader GLenum
  | GlShaderSource GLuint GLsizei "string list" "GLint list option"
  | GlCompileShader GLuint
  | GlGetShaderiv GLuint GLenum
  | GlGetShaderInfoLog GLuint GLsizei
  | GlDeleteShader GLuint
  | GlCreateProgram
  | GlAttachShader GLuint GLuint
  | GlLinkProgram GLuint
  | GlValidateProgram GLuint
  | GlUseProgram GLuint
  | GlDeleteProgram GLuint
  | GlGetString GLenum
  | GlGenBuffers GLsizei
  | GlBindBuffer GLenum GLuint
  | GlBufferData GLenum nat "GLfloat list" GLenum
  | GlEnableVertexAttribArray GLuint
  | GlVertexAttribPointer GLuint GLint GLenum GLboolean GLsizei nat
  | GlClearColor GLfloat GLfloat GLfloat GLfloat
  | GlClear GLbitfield
  | GlDrawArrays GLenum GLint GLsizei
  | GlDrawElements GLenum GLsizei GLenum nat
  | GlewInit
  | GlfwInit
  | GlfwCreateWindow int int string "GLFWmonitor option" "GLFWwindow option"
  | GlfwMakeContextCurrent GLFWwindow
  | GlfwWindowShouldClose GLFWwindow
  | GlfwSwapBuffers GLFWwindow
  | GlfwPollEvents
  | GlfwTerminate

text \<open>
  The answers of the libraries. \<open>glGetShaderInfoLog_ret\<close> is the text of the info log
  the driver holds for the shader (without a terminator); \<open>glGetString_ret\<close> and
  \<open>glfwCreateWindow_ret\<close> answer with a pointer, which may be \<^verbatim>\<open>NULL\<close>.
\<close>

record driver =
  glCreateShader_ret :: "call list \<Rightarrow> GLuint"
  glGetShaderiv_ret :: "call list \<Rightarrow> GLint"
  glGetShaderInfoLog_ret :: "call list \<Rightarrow> string"
  glCreateProgram_ret :: "call list \<Rightarrow> GLuint"
  glGetString_ret :: "call list \<Rightarrow> string option"
  glGenBuffers_ret :: "call list \<Rightarrow> GLuint"
  glfwInit_ret :: "call list \<Rightarrow> GLint"
  glfwCreateWindow_ret :: "call list \<Rightarrow> GLFWwindow option"
  glfwWindowShouldClose_ret :: "call list \<Rightarrow> GLint"

text \<open>What the process has done so far: the calls it made and the text on \<^verbatim>\<open>std::cout\<close>.\<close>

record world =
  trace :: "call list"
  console :: string

definition emit :: "call \<Rightarrow> world \<Rightarrow> world" where
  "emit c s = s\<lparr>trace := trace s @ [c]\<rparr>"

definition cout :: "string \<Rightarrow> world \<Rightarrow> world" where
  "cout t s = s\<lparr>console := console s @ t\<rparr>"

definition endl :: string where
  "endl = [CHR 0x0A]"

subsection \<open>Character buffers\<close>

text \<open>
  \<^verbatim>\<open>alloca\<close> hands back bytes that nobody has written: \<open>None\<close> is such a byte. The
  source converts the \<^verbatim>\<open>int length\<close> to \<^verbatim>\<open>size_t\<close> in \<^verbatim>\<open>length * sizeof(char)\<close>, so
  a negative length asks for more than the address space holds and the stack
  overflows; a request that is not negative is taken to fit.
\<close>

datatype fault = StackOverflow | UninitialisedRead | NullRead

type_synonym buffer = "char option list"

definition NUL :: char where
  "NUL = CHR 0x00"

definition alloca :: "GLint \<Rightarrow> buffer option" where
  "alloca n = (if sint n < 0 then None else Some (replicate (nat (sint n)) None))"

text \<open>
  \<^verbatim>\<open>glGetShaderInfoLog(shader, bufSize, &length, infoLog)\<close> writes at most \<open>bufSize\<close>
  characters of the log, the terminator included, and nothing when \<open>bufSize\<close> is not
  positive (OpenGL 4.6, section 7.14).
\<close>

definition glGetShaderInfoLog_write :: "string \<Rightarrow> GLsizei \<Rightarrow> buffer \<Rightarrow> buffer" where
  "glGetShaderInfoLog_write infoLog bufSize buf =
     (if sint bufSize \<le> 0 then buf
      else (let written = take (nat (sint bufSize) - 1) infoLog @ [NUL]
            in map Some written @ drop (length written) buf))"

text \<open>
  \<^verbatim>\<open>std::cout << message\<close> for a \<^verbatim>\<open>char*\<close> reads up to the first terminator. Reading
  a byte that was never written, or past the end of the buffer, is undefined.
\<close>

fun c_str :: "buffer \<Rightarrow> string option" where
  "c_str [] = None"
| "c_str (None # bs) = None"
| "c_str (Some c # bs) = (if c = NUL then Some [] else map_option ((#) c) (c_str bs))"

section \<open>CompileShader\<close>

text \<open>
  Lines 8 to 16: the shader object is created, given the source and compiled, and the
  compile status is asked for. The block hands on the handle \<^verbatim>\<open>id\<close> and the status
  \<^verbatim>\<open>result\<close>.
\<close>

definition compile_source :: "driver \<Rightarrow> GLenum \<Rightarrow> string \<Rightarrow> world \<Rightarrow> (GLuint \<times> GLint) \<times> world" where
  "compile_source d type' source s0 =
     (let s1 = emit (GlCreateShader type') s0;
          id' = glCreateShader_ret d (trace s1);
          s2 = emit (GlShaderSource id' 1 [source] None) s1;
          s3 = emit (GlCompileShader id') s2;
          s4 = emit (GlGetShaderiv id' GL_COMPILE_STATUS) s3;
          result = glGetShaderiv_ret d (trace s4)
      in ((id', result), s4))"

text \<open>
  Lines 6 to 32. A run that reaches undefined behaviour ends in \<open>Inl\<close> of the fault,
  with the world as it was at that point.
\<close>

definition CompileShader :: "driver \<Rightarrow> GLenum \<Rightarrow> string \<Rightarrow> world \<Rightarrow> (fault + GLint) \<times> world" where
  "CompileShader d type' source s0 =
     (case compile_source d type' source s0 of
        ((id', result), s4) \<Rightarrow>
          if result = GL_FALSE then
            (let s5 = emit (GlGetShaderiv id' GL_INFO_LOG_LENGTH) s4;
                 length' = glGetShaderiv_ret d (trace s5)
             in case alloca length' of
                  None \<Rightarrow> (Inl StackOverflow, s5)
                | Some buf \<Rightarrow>
                    (let s6 = emit (GlGetShaderInfoLog id' length') s5;
                         message = glGetShaderInfoLog_write (glGetShaderInfoLog_ret d (trace s6)) length' buf;
                         s7 = cout (''(EE) Failed to compile ''
                                    @ (if type' = GL_VERTEX_SHADER then ''vertex'' else ''fragment'')
                                    @ ''shader:'' @ endl) s6
                     in case c_str message of
                          None \<Rightarrow> (Inl UninitialisedRead, s7)
                        | Some text' \<Rightarrow>
                            (let s8 = cout (text' @ endl) s7;
                                 s9 = emit (GlDeleteShader id') s8
                             in (Inr 0, s9))))
          else (Inr id', s4))"

section \<open>CreateShader\<close>

text \<open>Lines 38 to 59.\<close>

definition CreateShader :: "driver \<Rightarrow> string \<Rightarrow> string \<Rightarrow> world \<Rightarrow> (fault + GLuint) \<times> world" where
  "CreateShader d vertexShader' fragmentShader' s0 =
     (let s1 = emit GlCreateProgram s0;
          program = glCreateProgram_ret d (trace s1)
      in case CompileShader d GL_VERTEX_SHADER vertexShader' s1 of
           (Inl f, s2) \<Rightarrow> (Inl f, s2)
         | (Inr vs, s2) \<Rightarrow>
             (case CompileShader d GL_FRAGMENT_SHADER fragmentShader' s2 of
                (Inl f, s3) \<Rightarrow> (Inl f, s3)
              | (Inr fs, s3) \<Rightarrow>
                  (let s4 = emit (GlAttachShader program vs) s3;
                       s5 = emit (GlAttachShader program fs) s4;
                       s6 = emit (GlLinkProgram program) s5;
                       s7 = emit (GlValidateProgram program) s6;
                       s8 = emit (GlDeleteShader vs) s7;
                       s9 = emit (GlDeleteShader fs) s8
                   in (Inr program, s9))))"

section \<open>main\<close>

definition positions :: "GLfloat list" where
  "positions = [-0.5, -0.5, 0.0, 0.5, 0.5, -0.5]"

definition vertexShader :: string where
  "vertexShader =
     ''#version 330 core'' @ endl @
     endl @
     ''layout(location = 0) in vec4 position;'' @ endl @
     endl @
     ''void main()'' @ endl @
     ''{'' @ endl @
     ''   gl_Position = position;'' @ endl @
     ''}'' @ endl"

definition fragmentShader :: string where
  "fragmentShader =
     ''#version 330 core'' @ endl @
     endl @
     ''layout(location = 0) out vec4 color;'' @ endl @
     endl @
     ''void main()'' @ endl @
     ''{'' @ endl @
     ''   color = vec4(1.0, 0.0, 0.0, 1.0);'' @ endl @
     ''}'' @ endl"

text \<open>Lines 132 to 141: the body of the loop.\<close>

definition frame_body :: "GLFWwindow \<Rightarrow> world \<Rightarrow> world" where
  "frame_body window s0 =
     (let s1 = emit (GlClearColor 0.2 0.2 0.3 1.0) s0;
          s2 = emit (GlClear GL_COLOR_BUFFER_BIT) s1;
          s3 = emit (GlDrawArrays GL_TRIANGLES 0 3) s2;
          s4 = emit (GlfwSwapBuffers window) s3;
          s5 = emit GlfwPollEvents s4
      in s5)"

text \<open>
  Lines 130 to 142. The loop has no bound of its own: it runs until the window system
  answers \<^verbatim>\<open>glfwWindowShouldClose\<close> with a value that is not zero. \<open>frame_loop\<close> makes
  at most \<open>fuel\<close> evaluations of the loop condition. \<open>Closed\<close> says that the loop was
  left; \<open>Running\<close> that the fuel ran out first, with the world reached so far.
\<close>

datatype loop_state = Running | Closed

definition glfwWindowShouldClose :: "driver \<Rightarrow> GLFWwindow \<Rightarrow> world \<Rightarrow> GLint \<times> world" where
  "glfwWindowShouldClose d window s =
     (let s1 = emit (GlfwWindowShouldClose window) s in (glfwWindowShouldClose_ret d (trace s1), s1))"

fun frame_loop :: "nat \<Rightarrow> driver \<Rightarrow> GLFWwindow \<Rightarrow> world \<Rightarrow> loop_state \<times> world" where
  "frame_loop 0 d window s = (Running, s)"
| "frame_loop (Suc fuel) d window s =
     (case glfwWindowShouldClose d window s of
        (r, s1) \<Rightarrow> if r = 0 then frame_loop fuel d window (frame_body window s1)
                   else (Closed, s1))"

text \<open>
  Lines 129 to 147: the loop and what follows it. \<open>StillRunning\<close> is the outcome of a
  run whose loop has not been left within the fuel.
\<close>

datatype outcome = Returned "32 word" | Faulted fault | StillRunning

definition main_loop :: "nat \<Rightarrow> driver \<Rightarrow> GLFWwindow \<Rightarrow> GLuint \<Rightarrow> world \<Rightarrow> outcome \<times> world" where
  "main_loop fuel d window shader s0 =
     (case frame_loop fuel d window s0 of
        (Running, s1) \<Rightarrow> (StillRunning, s1)
      | (Closed, s1) \<Rightarrow>
          (let s2 = emit (GlDeleteProgram shader) s1;
               s3 = emit GlfwTerminate s2
           in (Returned 0, s3)))"

text \<open>Lines 61 to 148. The process starts with no call made and nothing printed.\<close>

definition main :: "nat \<Rightarrow> driver \<Rightarrow> outcome \<times> world" where
  "main fuel d =
     (let s1 = emit GlfwInit \<lparr>trace = [], console = []\<rparr>
      in if glfwInit_ret d (trace s1) = 0 then (Returned (-1), s1)
         else
           (let s2 = emit GlewInit s1;
                s3 = emit (GlfwCreateWindow 640 480 ''Hello World'' None None) s2
            in case glfwCreateWindow_ret d (trace s3) of
                 None \<Rightarrow> (Returned (-1), emit GlfwTerminate s3)
               | Some window \<Rightarrow>
                   (let s4 = emit (GlfwMakeContextCurrent window) s3;
                        s5 = emit GlewInit s4;
                        s6 = emit (GlGetString GL_VERSION) s5
                    in case glGetString_ret d (trace s6) of
                         None \<Rightarrow> (Faulted NullRead, s6)
                       | Some version \<Rightarrow>
                           (let s7 = cout (version @ endl) s6;
                                s8 = emit (GlGenBuffers 1) s7;
                                buffer' = glGenBuffers_ret d (trace s8);
                                s9 = emit (GlBindBuffer GL_ARRAY_BUFFER buffer') s8;
                                s10 = emit (GlBufferData GL_ARRAY_BUFFER (6 * sizeof_float) positions GL_STATIC_DRAW) s9;
                                s11 = emit (GlEnableVertexAttribArray 0) s10;
                                s12 = emit (GlVertexAttribPointer 0 2 GL_FLOAT GL_FALSE (of_nat (2 * sizeof_float)) 0) s11
                            in case CreateShader d vertexShader fragmentShader s12 of
                                 (Inl f, s13) \<Rightarrow> (Faulted f, s13)
                               | (Inr shader, s13) \<Rightarrow>
                                   main_loop fuel d window shader (emit (GlUseProgram shader) s13)))))"

section \<open>Observations on a trace\<close>

text \<open>
  The kinds of call the properties below speak of: a draw (\<^verbatim>\<open>glDrawArrays\<close>, or the
  indexed \<^verbatim>\<open>glDrawElements\<close>), an upload into a buffer object, and a check of the
  close flag of the window.
\<close>

definition is_draw :: "call \<Rightarrow> bool" where
  "is_draw c = (case c of GlDrawArrays _ _ _ \<Rightarrow> True | GlDrawElements _ _ _ _ \<Rightarrow> True | _ \<Rightarrow> False)"

definition is_indexed_draw :: "call \<Rightarrow> bool" where
  "is_indexed_draw c = (case c of GlDrawElements _ _ _ _ \<Rightarrow> True | _ \<Rightarrow> False)"

definition is_upload :: "call \<Rightarrow> bool" where
  "is_upload c = (case c of GlBufferData _ _ _ _ \<Rightarrow> True | _ \<Rightarrow> False)"

definition is_close_check :: "call \<Rightarrow> bool" where
  "is_close_check c = (case c of GlfwWindowShouldClose _ \<Rightarrow> True | _ \<Rightarrow> False)"

text \<open>
  The calls of one pass through the body of the loop, and of \<open>k\<close> whole iterations:
  each iteration is the evaluation of the loop condition followed by the body.
\<close>

definition frame_calls :: "GLFWwindow \<Rightarrow> call list" where
  "frame_calls window =
     [GlClearColor 0.2 0.2 0.3 1.0, GlClear GL_COLOR_BUFFER_BIT, GlDrawArrays GL_TRIANGLES 0 3,
      GlfwSwapBuffers window, GlfwPollEvents]"

definition frames :: "GLFWwindow \<Rightarrow> nat \<Rightarrow> call list" where
  "frames window k = concat (replicate k (GlfwWindowShouldClose window # frame_calls window))"

text \<open>
  \<open>adds A s s'\<close>: the world \<open>s'\<close> is \<open>s\<close> with further calls, each of which satisfies
  \<open>A\<close>. A call is \<open>quiet\<close> when it is none of the calls that create, bind or fill a
  buffer or describe a vertex attribute, and when, if it draws, it is the array draw of
  the three vertices of the triangle.
\<close>

definition adds :: "(call \<Rightarrow> bool) \<Rightarrow> world \<Rightarrow> world \<Rightarrow> bool" where
  "adds A s s' = (\<exists>ext. trace s' = trace s @ ext \<and> list_all A ext)"

definition quiet :: "call \<Rightarrow> bool" where
  "quiet c =
     (case c of
        GlGenBuffers _ \<Rightarrow> False
      | GlBindBuffer _ _ \<Rightarrow> False
      | GlBufferData _ _ _ _ \<Rightarrow> False
      | GlEnableVertexAttribArray _ \<Rightarrow> False
      | GlVertexAttribPointer _ _ _ _ _ _ \<Rightarrow> False
      | GlDrawElements _ _ _ _ \<Rightarrow> False
      | GlDrawArrays m f n \<Rightarrow> m = GL_TRIANGLES \<and> f = 0 \<and> n = 3
      | _ \<Rightarrow> True)"

text \<open>
  Lines 66 to 101 on the path on which nothing fails: the calls of \<open>main\<close> up to the
  description of the vertex attribute, for the window and the buffer name that the
  libraries handed out; \<open>generated_buffer\<close> is the name that \<^verbatim>\<open>glGenBuffers\<close> answers
  with on that path. \<open>reaches_setup\<close> tells from the answers of the libraries whether
  a run takes that path (and with which window): it does unless \<^verbatim>\<open>glfwInit\<close> fails,
  no window is created, or the version string is \<^verbatim>\<open>NULL\<close>.
\<close>

definition setup_calls :: "GLFWwindow \<Rightarrow> GLuint \<Rightarrow> call list" where
  "setup_calls window buffer' =
     [GlfwInit, GlewInit, GlfwCreateWindow 640 480 ''Hello World'' None None,
      GlfwMakeContextCurrent window, GlewInit, GlGetString GL_VERSION,
      GlGenBuffers 1, GlBindBuffer GL_ARRAY_BUFFER buffer',
      GlBufferData GL_ARRAY_BUFFER (6 * sizeof_float) positions GL_STATIC_DRAW,
      GlEnableVertexAttribArray 0,
      GlVertexAttribPointer 0 2 GL_FLOAT GL_FALSE (of_nat (2 * sizeof_float)) 0]"

definition generated_buffer :: "driver \<Rightarrow> GLFWwindow \<Rightarrow> GLuint" where
  "generated_buffer d window =
     glGenBuffers_ret d
       [GlfwInit, GlewInit, GlfwCreateWindow 640 480 ''Hello World'' None None,
        GlfwMakeContextCurrent window, GlewInit, GlGetString GL_VERSION, GlGenBuffers 1]"

definition reaches_setup :: "driver \<Rightarrow> GLFWwindow option" where
  "reaches_setup d =
     (if glfwInit_ret d [GlfwInit] = 0 then None
      else case glfwCreateWindow_ret d
                  [GlfwInit, GlewInit, GlfwCreateWindow 640 480 ''Hello World'' None None] of
             None \<Rightarrow> None
           | Some window \<Rightarrow>
               (case glGetString_ret d
                       [GlfwInit, GlewInit, GlfwCreateWindow 640 480 ''Hello World'' None None,
                        GlfwMakeContextCurrent window, GlewInit, GlGetString GL_VERSION] of
                  None \<Rightarrow> None
                | Some version \<Rightarrow> Some window))"

subsection \<open>The state of the OpenGL context that the setup writes\<close>

text \<open>
  The part of the context state that lines 93 to 127 set up, and the effect that the
  OpenGL specification gives each call on it: the clear colour, the buffer bound to
  \<^verbatim>\<open>GL_ARRAY_BUFFER\<close>, the data store of each buffer object, the vertex attribute
  arrays (enabled or not, and for each the buffer, size, type, normalisation, stride and
  offset it reads) and the program in use. A call that is not listed leaves these
  fields as they are.
\<close>

record gl_context =
  clear_color :: "GLfloat \<times> GLfloat \<times> GLfloat \<times> GLfloat"
  array_buffer :: GLuint
  buffer_store :: "GLuint \<Rightarrow> GLfloat list option"
  attrib_enabled :: "GLuint \<Rightarrow> bool"
  attrib_pointer :: "GLuint \<Rightarrow> (GLuint \<times> GLint \<times> GLenum \<times> GLboolean \<times> GLsizei \<times> nat) option"
  current_program :: GLuint

fun gl_apply :: "gl_context \<Rightarrow> call \<Rightarrow> gl_context" where
  "gl_apply g (GlClearColor r gr b a) = g\<lparr>clear_color := (r, gr, b, a)\<rparr>"
| "gl_apply g (GlBindBuffer target b) =
     (if target = GL_ARRAY_BUFFER then g\<lparr>array_buffer := b\<rparr> else g)"
| "gl_apply g (GlBufferData target size' data usage) =
     (if target = GL_ARRAY_BUFFER
      then g\<lparr>buffer_store := (buffer_store g)(array_buffer g \<mapsto> data)\<rparr> else g)"
| "gl_apply g (GlEnableVertexAttribArray i) = g\<lparr>attrib_enabled := (attrib_enabled g)(i := True)\<rparr>"
| "gl_apply g (GlVertexAttribPointer i n ty normalized stride off) =
     g\<lparr>attrib_pointer := (attrib_pointer g)(i \<mapsto> (array_buffer g, n, ty, normalized, stride, off))\<rparr>"
| "gl_apply g (GlUseProgram p) = g\<lparr>current_program := p\<rparr>"
| "gl_apply g _ = g"

text \<open>
  The vertex buffer is ready for drawing in a context when the buffer \<open>buf\<close> is the one
  bound to \<^verbatim>\<open>GL_ARRAY_BUFFER\<close>, its data store holds \<open>positions\<close>, and attribute 0 is
  enabled and reads that buffer as two floats per vertex, as line 101 describes it.
\<close>

definition vertex_buffer_ready :: "gl_context \<Rightarrow> GLuint \<Rightarrow> bool" where
  "vertex_buffer_ready g buf =
     (array_buffer g = buf
      \<and> buffer_store g buf = Some positions
      \<and> attrib_enabled g 0
      \<and> attrib_pointer g 0 = Some (buf, 2, GL_FLOAT, GL_FALSE, of_nat (2 * sizeof_float), 0))"

subsection \<open>Drivers for the examples\<close>

text \<open>
  \<open>working_driver\<close> compiles every shader, hands out handles that are not zero and
  reports the close request at the third check (the check that finds two draws in the
  history). The others differ from it where their names say: \<open>rejecting_driver\<close> fails
  every compilation with the five character log \<^verbatim>\<open>error\<close>, \<open>silent_driver\<close> fails every
  compilation with an empty log, \<open>no_program_driver\<close> creates no program object,
  \<open>no_window_driver\<close> no window, and with \<open>no_glfw_driver\<close> the library does not
  initialise. \<open>blank_context\<close> is a context in which nothing has been set up, and
  \<open>start\<close> the world of a process that has made no call.
\<close>

definition working_driver :: driver where
  "working_driver =
     \<lparr>glCreateShader_ret = (\<lambda>h. of_nat (length h)),
      glGetShaderiv_ret = (\<lambda>h. 1),
      glGetShaderInfoLog_ret = (\<lambda>h. []),
      glCreateProgram_ret = (\<lambda>h. 1),
      glGetString_ret = (\<lambda>h. Some ''3.3.0''),
      glGenBuffers_ret = (\<lambda>h. 1),
      glfwInit_ret = (\<lambda>h. 1),
      glfwCreateWindow_ret = (\<lambda>h. Some (Window 1)),
      glfwWindowShouldClose_ret = (\<lambda>h. if 2 \<le> length (filter is_draw h) then 1 else 0)\<rparr>"

definition rejecting_driver :: driver where
  "rejecting_driver = working_driver
     \<lparr>glGetShaderiv_ret :=
        (\<lambda>h. case last h of
                GlGetShaderiv i p \<Rightarrow> if p = GL_COMPILE_STATUS then GL_FALSE else 6
              | _ \<Rightarrow> 0),
      glGetShaderInfoLog_ret := (\<lambda>h. ''error'')\<rparr>"

definition silent_driver :: driver where
  "silent_driver = working_driver\<lparr>glGetShaderiv_ret := (\<lambda>h. 0)\<rparr>"

definition no_program_driver :: driver where
  "no_program_driver = working_driver\<lparr>glCreateProgram_ret := (\<lambda>h. 0)\<rparr>"

definition no_window_driver :: driver where
  "no_window_driver = working_driver\<lparr>glfwCreateWindow_ret := (\<lambda>h. None)\<rparr>"

definition no_glfw_driver :: driver where
  "no_glfw_driver = working_driver\<lparr>glfwInit_ret := (\<lambda>h. 0)\<rparr>"

definition blank_context :: gl_context where
  "blank_context =
     \<lparr>clear_color = (0, 0, 0, 0), array_buffer = 0, buffer_store = (\<lambda>b. None),
      attrib_enabled = (\<lambda>i. False), attrib_pointer = (\<lambda>i. None), current_program = 0\<rparr>"

definition start :: world where
  "start = \<lparr>trace = [], console = []\<rparr>"

section \<open>Lemmas\<close>

lemma emit_eq: "emit c s = \<lparr>trace = trace s @ [c], console = console s\<rparr>"
  by (simp add: emit_def)

lemma cout_eq: "cout t s = \<lparr>trace = trace s, console = console s @ t\<rparr>"
  by (simp add: cout_def)

lemma c_str_terminated:
  "c_str (map Some xs @ Some NUL # rest) = Some (takeWhile (\<lambda>c. c \<noteq> NUL) xs)"
  by (induction xs) simp_all

lemma message_written:
  assumes "0 < sint n"
  shows "c_str (glGetShaderInfoLog_write infoLog n (replicate (nat (sint n)) None))
         = Some (takeWhile (\<lambda>c. c \<noteq> NUL) (take (nat (sint n) - 1) infoLog))"
  using assms by (simp add: glGetShaderInfoLog_write_def Let_def c_str_terminated)

lemma compile_source_eq:
  "compile_source d ty src s =
     ((glCreateShader_ret d (trace s @ [GlCreateShader ty]),
       glGetShaderiv_ret d (trace s @
         [GlCreateShader ty,
          GlShaderSource (glCreateShader_ret d (trace s @ [GlCreateShader ty])) 1 [src] None,
          GlCompileShader (glCreateShader_ret d (trace s @ [GlCreateShader ty])),
          GlGetShaderiv (glCreateShader_ret d (trace s @ [GlCreateShader ty])) GL_COMPILE_STATUS])),
      \<lparr>trace = trace s @
         [GlCreateShader ty,
          GlShaderSource (glCreateShader_ret d (trace s @ [GlCreateShader ty])) 1 [src] None,
          GlCompileShader (glCreateShader_ret d (trace s @ [GlCreateShader ty])),
          GlGetShaderiv (glCreateShader_ret d (trace s @ [GlCreateShader ty])) GL_COMPILE_STATUS],
       console = console s\<rparr>)"
  by (simp add: compile_source_def Let_def emit_eq)

lemma CompileShader_compiled:
  assumes "compile_source d ty src s = ((i, r), s4)" and "r \<noteq> GL_FALSE"
  shows "CompileShader d ty src s = (Inr i, s4)"
  using assms by (simp add: CompileShader_def)

lemma CreateShader_eq:
  assumes "CompileShader d GL_VERTEX_SHADER v (emit GlCreateProgram s) = (Inr vs, s2)"
    and "CompileShader d GL_FRAGMENT_SHADER f s2 = (Inr fs, s3)"
  shows "CreateShader d v f s =
           (Inr (glCreateProgram_ret d (trace s @ [GlCreateProgram])),
            \<lparr>trace = trace s3 @
               [GlAttachShader (glCreateProgram_ret d (trace s @ [GlCreateProgram])) vs,
                GlAttachShader (glCreateProgram_ret d (trace s @ [GlCreateProgram])) fs,
                GlLinkProgram (glCreateProgram_ret d (trace s @ [GlCreateProgram])),
                GlValidateProgram (glCreateProgram_ret d (trace s @ [GlCreateProgram])),
                GlDeleteShader vs, GlDeleteShader fs],
             console = console s3\<rparr>)"
  using assms by (simp add: CreateShader_def Let_def emit_eq)


lemma frame_body_eq:
  "frame_body w s = \<lparr>trace = trace s @ frame_calls w, console = console s\<rparr>"
  by (simp add: frame_body_def frame_calls_def Let_def emit_eq)

lemma glfwWindowShouldClose_eq:
  "glfwWindowShouldClose d w s =
     (glfwWindowShouldClose_ret d (trace s @ [GlfwWindowShouldClose w]),
      \<lparr>trace = trace s @ [GlfwWindowShouldClose w], console = console s\<rparr>)"
  by (simp add: glfwWindowShouldClose_def Let_def emit_eq)

lemma frames_Suc: "frames w (Suc k) = GlfwWindowShouldClose w # frame_calls w @ frames w k"
  by (simp add: frames_def)

lemma frame_loop_running:
  assumes "\<forall>j<fuel. glfwWindowShouldClose_ret d (trace s @ frames w j @ [GlfwWindowShouldClose w]) = 0"
  shows "frame_loop fuel d w s = (Running, \<lparr>trace = trace s @ frames w fuel, console = console s\<rparr>)"
  using assms
proof (induction fuel arbitrary: s)
  case 0
  then show ?case by (simp add: frames_def)
next
  case (Suc fuel)
  let ?s' = "\<lparr>trace = trace s @ GlfwWindowShouldClose w # frame_calls w, console = console s\<rparr>"
  from Suc.prems have first: "glfwWindowShouldClose_ret d (trace s @ [GlfwWindowShouldClose w]) = 0"
    by (auto simp: frames_def dest: spec [of _ 0])
  have "\<forall>j<fuel. glfwWindowShouldClose_ret d (trace ?s' @ frames w j @ [GlfwWindowShouldClose w]) = 0"
  proof (intro allI impI)
    fix j assume "j < fuel"
    then have "Suc j < Suc fuel" by simp
    with Suc.prems have "glfwWindowShouldClose_ret d (trace s @ frames w (Suc j) @ [GlfwWindowShouldClose w]) = 0"
      by blast
    then show "glfwWindowShouldClose_ret d (trace ?s' @ frames w j @ [GlfwWindowShouldClose w]) = 0"
      by (simp add: frames_Suc)
  qed
  from Suc.IH [OF this] first show ?case
    by (simp add: glfwWindowShouldClose_eq frame_body_eq frames_Suc)
qed

lemma frame_loop_closed:
  assumes "\<forall>j<k. glfwWindowShouldClose_ret d (trace s @ frames w j @ [GlfwWindowShouldClose w]) = 0"
    and "glfwWindowShouldClose_ret d (trace s @ frames w k @ [GlfwWindowShouldClose w]) \<noteq> 0"
    and "k < fuel"
  shows "frame_loop fuel d w s =
           (Closed, \<lparr>trace = trace s @ frames w k @ [GlfwWindowShouldClose w], console = console s\<rparr>)"
  using assms
proof (induction k arbitrary: s fuel)
  case 0
  then obtain n where "fuel = Suc n" by (cases fuel) auto
  with 0 show ?case by (simp add: glfwWindowShouldClose_eq frames_def)
next
  case (Suc k)
  then obtain n where fuel: "fuel = Suc n" and n: "k < n" by (cases fuel) auto
  let ?s' = "\<lparr>trace = trace s @ GlfwWindowShouldClose w # frame_calls w, console = console s\<rparr>"
  from Suc.prems(1) have first: "glfwWindowShouldClose_ret d (trace s @ [GlfwWindowShouldClose w]) = 0"
    by (auto simp: frames_def dest: spec [of _ 0])
  have a: "\<forall>j<k. glfwWindowShouldClose_ret d (trace ?s' @ frames w j @ [GlfwWindowShouldClose w]) = 0"
  proof (intro allI impI)
    fix j assume "j < k"
    then have "Suc j < Suc k" by simp
    with Suc.prems(1) have "glfwWindowShouldClose_ret d (trace s @ frames w (Suc j) @ [GlfwWindowShouldClose w]) = 0"
      by blast
    then show "glfwWindowShouldClose_ret d (trace ?s' @ frames w j @ [GlfwWindowShouldClose w]) = 0"
      by (simp add: frames_Suc)
  qed
  from Suc.prems(2) have b: "glfwWindowShouldClose_ret d (trace ?s' @ frames w k @ [GlfwWindowShouldClose w]) \<noteq> 0"
    by (simp add: frames_Suc)
  from Suc.IH [OF a b n] first fuel show ?case
    by (simp add: glfwWindowShouldClose_eq frame_body_eq frames_Suc)
qed

lemma frame_loop_trace:
  "\<exists>k\<le>fuel.
     frame_loop fuel d w s =
       (Closed, \<lparr>trace = trace s @ frames w k @ [GlfwWindowShouldClose w], console = console s\<rparr>)
     \<or> frame_loop fuel d w s = (Running, \<lparr>trace = trace s @ frames w k, console = console s\<rparr>)"
proof (induction fuel arbitrary: s)
  case 0
  show ?case by (simp add: frames_def)
next
  case (Suc fuel)
  show ?case
  proof (cases "glfwWindowShouldClose_ret d (trace s @ [GlfwWindowShouldClose w]) = 0")
    case False
    then have "frame_loop (Suc fuel) d w s =
        (Closed, \<lparr>trace = trace s @ frames w 0 @ [GlfwWindowShouldClose w], console = console s\<rparr>)"
      by (simp add: glfwWindowShouldClose_eq frames_def)
    then show ?thesis by blast
  next
    case True
    let ?s' = "\<lparr>trace = trace s @ GlfwWindowShouldClose w # frame_calls w, console = console s\<rparr>"
    from True have step: "frame_loop (Suc fuel) d w s = frame_loop fuel d w ?s'"
      by (simp add: glfwWindowShouldClose_eq frame_body_eq)
    from Suc [of ?s'] obtain k where k: "k \<le> fuel" and
      eq: "frame_loop fuel d w ?s' =
             (Closed, \<lparr>trace = trace ?s' @ frames w k @ [GlfwWindowShouldClose w], console = console ?s'\<rparr>)
           \<or> frame_loop fuel d w ?s' = (Running, \<lparr>trace = trace ?s' @ frames w k, console = console ?s'\<rparr>)"
      by blast
    from eq have "frame_loop (Suc fuel) d w s =
             (Closed, \<lparr>trace = trace s @ frames w (Suc k) @ [GlfwWindowShouldClose w], console = console s\<rparr>)
           \<or> frame_loop (Suc fuel) d w s = (Running, \<lparr>trace = trace s @ frames w (Suc k), console = console s\<rparr>)"
      unfolding step by (simp add: frames_Suc)
    with k show ?thesis by (meson Suc_le_mono)
  qed
qed


lemma adds_trans: "adds A s s' \<Longrightarrow> adds A s' s'' \<Longrightarrow> adds A s s''"
  by (auto simp: adds_def)

lemma adds_emit: "A c \<Longrightarrow> adds A s (emit c s)"
  by (simp add: adds_def emit_def)

lemma adds_ext: "trace s' = trace s @ ext \<Longrightarrow> list_all A ext \<Longrightarrow> adds A s s'"
  by (auto simp: adds_def)

lemma quiet_simps:
  "quiet (GlCreateShader ty)" "quiet (GlShaderSource i n srcs ls)" "quiet (GlCompileShader i)"
  "quiet (GlGetShaderiv i p)" "quiet (GlGetShaderInfoLog i n)" "quiet (GlDeleteShader i)"
  "quiet GlCreateProgram" "quiet (GlAttachShader p i)" "quiet (GlLinkProgram p)"
  "quiet (GlValidateProgram p)" "quiet (GlUseProgram p)" "quiet (GlDeleteProgram p)"
  "quiet GlfwTerminate" "quiet (GlfwWindowShouldClose w)"
  by (simp_all add: quiet_def)

lemma CompileShader_adds: "adds quiet s (snd (CompileShader d ty src s))"
  by (rule adds_ext [where ext = "drop (length (trace s)) (trace (snd (CompileShader d ty src s)))"])
     (simp_all add: CompileShader_def compile_source_eq Let_def emit_eq cout_eq quiet_simps
        split: option.splits)

lemma CreateShader_adds: "adds quiet s (snd (CreateShader d v f s))"
proof -
  let ?s1 = "emit GlCreateProgram s"
  obtain r1 s2 where c1: "CompileShader d GL_VERTEX_SHADER v ?s1 = (r1, s2)" by fastforce
  obtain r2 s3 where c2: "CompileShader d GL_FRAGMENT_SHADER f s2 = (r2, s3)" by fastforce
  have a1: "adds quiet s ?s1" by (simp add: adds_emit quiet_simps)
  have a2: "adds quiet ?s1 s2" using CompileShader_adds [of ?s1 d GL_VERTEX_SHADER v] c1 by simp
  have a3: "adds quiet s2 s3" using CompileShader_adds [of s2 d GL_FRAGMENT_SHADER f] c2 by simp
  have a13: "adds quiet s s3" using a1 a2 a3 by (blast intro: adds_trans)
  show ?thesis
  proof (cases r1)
    case (Inl e)
    with c1 a1 a2 show ?thesis by (auto simp: CreateShader_def Let_def intro: adds_trans)
  next
    case r1: (Inr vs)
    show ?thesis
    proof (cases r2)
      case (Inl e)
      with r1 c1 c2 a13 show ?thesis by (simp add: CreateShader_def Let_def)
    next
      case (Inr fs)
      have "adds quiet s3 (snd (CreateShader d v f s))"
        using r1 Inr c1 c2
        by (intro adds_ext [where ext = "drop (length (trace s3)) (trace (snd (CreateShader d v f s)))"])
           (simp_all add: CreateShader_def Let_def emit_eq quiet_simps)
      with a13 show ?thesis by (blast intro: adds_trans)
    qed
  qed
qed

lemma list_all_frames: "list_all quiet (frames w k)"
  by (induction k) (simp_all add: frames_def frame_calls_def quiet_def)

lemma frame_loop_adds: "adds quiet s (snd (frame_loop fuel d w s))"
proof -
  from frame_loop_trace [of fuel d w s] obtain k where
    "trace (snd (frame_loop fuel d w s)) = trace s @ frames w k @ [GlfwWindowShouldClose w]
     \<or> trace (snd (frame_loop fuel d w s)) = trace s @ frames w k"
    by force
  then show ?thesis
  proof
    assume "trace (snd (frame_loop fuel d w s)) = trace s @ frames w k @ [GlfwWindowShouldClose w]"
    then show ?thesis by (rule adds_ext) (simp add: list_all_frames quiet_simps)
  next
    assume "trace (snd (frame_loop fuel d w s)) = trace s @ frames w k"
    then show ?thesis by (rule adds_ext) (simp add: list_all_frames)
  qed
qed

lemma main_loop_adds: "adds quiet s (snd (main_loop fuel d w sh s))"
proof -
  obtain st s1 where fl: "frame_loop fuel d w s = (st, s1)" by fastforce
  with frame_loop_adds [of s fuel d w] have a: "adds quiet s s1" by simp
  show ?thesis
  proof (cases st)
    case Running
    with fl a show ?thesis by (simp add: main_loop_def)
  next
    case Closed
    have "adds quiet s1 (emit GlfwTerminate (emit (GlDeleteProgram sh) s1))"
      by (blast intro: adds_trans adds_emit quiet_simps)
    with fl a Closed show ?thesis by (auto simp: main_loop_def Let_def intro: adds_trans)
  qed
qed


lemma GL_macros_distinct: "GL_FRAGMENT_SHADER \<noteq> GL_VERTEX_SHADER" "GL_INFO_LOG_LENGTH \<noteq> GL_COMPILE_STATUS"
  by (simp_all add: GL_FRAGMENT_SHADER_def GL_VERTEX_SHADER_def GL_INFO_LOG_LENGTH_def GL_COMPILE_STATUS_def)

lemma rejecting_vertex:
  "CompileShader rejecting_driver GL_VERTEX_SHADER ''v'' (emit GlCreateProgram start) =
     (Inr 0,
      \<lparr>trace = [GlCreateProgram, GlCreateShader GL_VERTEX_SHADER, GlShaderSource 2 1 [''v''] None,
                GlCompileShader 2, GlGetShaderiv 2 GL_COMPILE_STATUS, GlGetShaderiv 2 GL_INFO_LOG_LENGTH,
                GlGetShaderInfoLog 2 6, GlDeleteShader 2],
       console = ''(EE) Failed to compile vertexshader:'' @ endl @ ''error'' @ endl\<rparr>)"
  by (simp add: CompileShader_def compile_source_eq rejecting_driver_def working_driver_def start_def
      GL_FALSE_def GL_macros_distinct alloca_def glGetShaderInfoLog_write_def NUL_def emit_eq cout_eq Let_def)

lemma rejecting_fragment:
  "CompileShader rejecting_driver GL_FRAGMENT_SHADER ''f''
      \<lparr>trace = [GlCreateProgram, GlCreateShader GL_VERTEX_SHADER, GlShaderSource 2 1 [''v''] None,
                GlCompileShader 2, GlGetShaderiv 2 GL_COMPILE_STATUS, GlGetShaderiv 2 GL_INFO_LOG_LENGTH,
                GlGetShaderInfoLog 2 6, GlDeleteShader 2],
       console = ''(EE) Failed to compile vertexshader:'' @ endl @ ''error'' @ endl\<rparr> =
     (Inr 0,
      \<lparr>trace = [GlCreateProgram, GlCreateShader GL_VERTEX_SHADER, GlShaderSource 2 1 [''v''] None,
                GlCompileShader 2, GlGetShaderiv 2 GL_COMPILE_STATUS, GlGetShaderiv 2 GL_INFO_LOG_LENGTH,
                GlGetShaderInfoLog 2 6, GlDeleteShader 2,
                GlCreateShader GL_FRAGMENT_SHADER, GlShaderSource 9 1 [''f''] None,
                GlCompileShader 9, GlGetShaderiv 9 GL_COMPILE_STATUS, GlGetShaderiv 9 GL_INFO_LOG_LENGTH,
                GlGetShaderInfoLog 9 6, GlDeleteShader 9],
       console = ''(EE) Failed to compile vertexshader:'' @ endl @ ''error'' @ endl
                 @ ''(EE) Failed to compile fragmentshader:'' @ endl @ ''error'' @ endl\<rparr>)"
  by (simp add: CompileShader_def compile_source_eq rejecting_driver_def working_driver_def start_def
      GL_FALSE_def GL_macros_distinct alloca_def glGetShaderInfoLog_write_def NUL_def emit_eq cout_eq Let_def)

lemma working_vertex:
  "compile_source working_driver GL_VERTEX_SHADER vertexShader (emit GlCreateProgram start) =
     ((2, 1),
      \<lparr>trace = [GlCreateProgram, GlCreateShader GL_VERTEX_SHADER, GlShaderSource 2 1 [vertexShader] None,
                GlCompileShader 2, GlGetShaderiv 2 GL_COMPILE_STATUS],
       console = []\<rparr>)"
  by (simp add: compile_source_eq working_driver_def start_def emit_eq)

lemma working_fragment:
  "compile_source working_driver GL_FRAGMENT_SHADER fragmentShader
      \<lparr>trace = [GlCreateProgram, GlCreateShader GL_VERTEX_SHADER, GlShaderSource 2 1 [vertexShader] None,
                GlCompileShader 2, GlGetShaderiv 2 GL_COMPILE_STATUS],
       console = []\<rparr> =
     ((6, 1),
      \<lparr>trace = [GlCreateProgram, GlCreateShader GL_VERTEX_SHADER, GlShaderSource 2 1 [vertexShader] None,
                GlCompileShader 2, GlGetShaderiv 2 GL_COMPILE_STATUS,
                GlCreateShader GL_FRAGMENT_SHADER, GlShaderSource 6 1 [fragmentShader] None,
                GlCompileShader 6, GlGetShaderiv 6 GL_COMPILE_STATUS],
       console = []\<rparr>)"
  by (simp add: compile_source_eq working_driver_def)

lemma main_init_failed:
  assumes "glfwInit_ret d [GlfwInit] = 0"
  shows "main fuel d = (Returned (- 1), \<lparr>trace = [GlfwInit], console = []\<rparr>)"
  using assms by (simp add: main_def emit_eq)

lemma main_window_failed:
  assumes "glfwInit_ret d [GlfwInit] \<noteq> 0"
    and "glfwCreateWindow_ret d [GlfwInit, GlewInit, GlfwCreateWindow 640 480 ''Hello World'' None None] = None"
  shows "main fuel d =
           (Returned (- 1),
            \<lparr>trace = [GlfwInit, GlewInit, GlfwCreateWindow 640 480 ''Hello World'' None None, GlfwTerminate],
             console = []\<rparr>)"
  using assms by (simp add: main_def emit_eq Let_def)

lemma main_version_null:
  assumes "glfwInit_ret d [GlfwInit] \<noteq> 0"
    and "glfwCreateWindow_ret d [GlfwInit, GlewInit, GlfwCreateWindow 640 480 ''Hello World'' None None] = Some w"
    and "glGetString_ret d [GlfwInit, GlewInit, GlfwCreateWindow 640 480 ''Hello World'' None None,
           GlfwMakeContextCurrent w, GlewInit, GlGetString GL_VERSION] = None"
  shows "main fuel d =
           (Faulted NullRead,
            \<lparr>trace = [GlfwInit, GlewInit, GlfwCreateWindow 640 480 ''Hello World'' None None,
                      GlfwMakeContextCurrent w, GlewInit, GlGetString GL_VERSION],
             console = []\<rparr>)"
  using assms by (simp add: main_def emit_eq Let_def)

lemma main_started:
  assumes "glfwInit_ret d [GlfwInit] \<noteq> 0"
    and "glfwCreateWindow_ret d [GlfwInit, GlewInit, GlfwCreateWindow 640 480 ''Hello World'' None None] = Some w"
    and "glGetString_ret d [GlfwInit, GlewInit, GlfwCreateWindow 640 480 ''Hello World'' None None,
           GlfwMakeContextCurrent w, GlewInit, GlGetString GL_VERSION] = Some v"
  shows "\<exists>ext. trace (snd (main fuel d)) = setup_calls w (generated_buffer d w) @ ext
         \<and> list_all quiet ext"
proof -
  let ?buf = "generated_buffer d w"
  let ?s12 = "\<lparr>trace = setup_calls w ?buf, console = v @ endl\<rparr>"
  obtain r s13 where cs: "CreateShader d vertexShader fragmentShader ?s12 = (r, s13)" by fastforce
  have m: "main fuel d =
     (case r of Inl f \<Rightarrow> (Faulted f, s13)
      | Inr shader \<Rightarrow> main_loop fuel d w shader (emit (GlUseProgram shader) s13))"
    using assms cs by (simp add: main_def setup_calls_def generated_buffer_def emit_eq cout_eq Let_def)
  from CreateShader_adds [of ?s12 d vertexShader fragmentShader] cs
  have a1: "adds quiet ?s12 s13" by simp
  have "adds quiet ?s12 (snd (main fuel d))"
  proof (cases r)
    case (Inl f)
    with m a1 show ?thesis by simp
  next
    case (Inr shader)
    have "adds quiet s13 (emit (GlUseProgram shader) s13)"
      by (simp add: adds_emit quiet_simps)
    moreover have "adds quiet (emit (GlUseProgram shader) s13)
        (snd (main_loop fuel d w shader (emit (GlUseProgram shader) s13)))"
      by (rule main_loop_adds)
    ultimately show ?thesis using m a1 Inr by (auto intro: adds_trans)
  qed
  then show ?thesis by (simp add: adds_def)
qed

lemma filter_quiet_upload: "list_all quiet ext \<Longrightarrow> filter is_upload ext = []"
  by (induction ext) (auto simp: quiet_def is_upload_def split: call.splits)

lemma quiet_draw: "list_all quiet ext \<Longrightarrow> c \<in> set ext \<Longrightarrow> is_draw c \<Longrightarrow> c = GlDrawArrays GL_TRIANGLES 0 3"
  by (auto simp: list_all_iff quiet_def is_draw_def split: call.splits)

lemma quiet_take: "list_all quiet ext \<Longrightarrow> list_all quiet (take i ext)"
  by (auto simp: list_all_iff dest: in_set_takeD)

lemma quiet_keeps:
  assumes "quiet c"
  shows "array_buffer (gl_apply g c) = array_buffer g"
    and "buffer_store (gl_apply g c) = buffer_store g"
    and "attrib_enabled (gl_apply g c) = attrib_enabled g"
    and "attrib_pointer (gl_apply g c) = attrib_pointer g"
  using assms by (cases c; simp add: quiet_def)+

lemma quiet_list_keeps:
  assumes "list_all quiet xs"
  shows "array_buffer (foldl gl_apply g xs) = array_buffer g
       \<and> buffer_store (foldl gl_apply g xs) = buffer_store g
       \<and> attrib_enabled (foldl gl_apply g xs) = attrib_enabled g
       \<and> attrib_pointer (foldl gl_apply g xs) = attrib_pointer g"
  using assms by (induction xs arbitrary: g) (simp_all add: quiet_keeps)

lemma setup_context:
  "array_buffer (foldl gl_apply g (setup_calls w buf)) = buf"
  "buffer_store (foldl gl_apply g (setup_calls w buf)) buf = Some positions"
  "attrib_enabled (foldl gl_apply g (setup_calls w buf)) 0"
  "attrib_pointer (foldl gl_apply g (setup_calls w buf)) 0
     = Some (buf, 2, GL_FLOAT, GL_FALSE, of_nat (2 * sizeof_float), 0)"
  by (simp_all add: setup_calls_def)

lemma main_working:
  "main 5 working_driver =
     (Returned 0,
      \<lparr>trace =
         [GlfwInit, GlewInit, GlfwCreateWindow 640 480 ''Hello World'' None None,
          GlfwMakeContextCurrent (Window 1), GlewInit, GlGetString GL_VERSION,
          GlGenBuffers 1, GlBindBuffer GL_ARRAY_BUFFER 1,
          GlBufferData GL_ARRAY_BUFFER (6 * sizeof_float) positions GL_STATIC_DRAW,
          GlEnableVertexAttribArray 0,
          GlVertexAttribPointer 0 2 GL_FLOAT GL_FALSE (of_nat (2 * sizeof_float)) 0,
          GlCreateProgram,
          GlCreateShader GL_VERTEX_SHADER, GlShaderSource 13 1 [vertexShader] None,
          GlCompileShader 13, GlGetShaderiv 13 GL_COMPILE_STATUS,
          GlCreateShader GL_FRAGMENT_SHADER, GlShaderSource 17 1 [fragmentShader] None,
          GlCompileShader 17, GlGetShaderiv 17 GL_COMPILE_STATUS,
          GlAttachShader 1 13, GlAttachShader 1 17, GlLinkProgram 1, GlValidateProgram 1,
          GlDeleteShader 13, GlDeleteShader 17, GlUseProgram 1,
          GlfwWindowShouldClose (Window 1),
          GlClearColor 0.2 0.2 0.3 1.0, GlClear GL_COLOR_BUFFER_BIT, GlDrawArrays GL_TRIANGLES 0 3,
          GlfwSwapBuffers (Window 1), GlfwPollEvents,
          GlfwWindowShouldClose (Window 1),
          GlClearColor 0.2 0.2 0.3 1.0, GlClear GL_COLOR_BUFFER_BIT, GlDrawArrays GL_TRIANGLES 0 3,
          GlfwSwapBuffers (Window 1), GlfwPollEvents,
          GlfwWindowShouldClose (Window 1),
          GlDeleteProgram 1, GlfwTerminate],
       console = ''3.3.0'' @ endl\<rparr>)"
  by (simp add: main_def main_loop_def CreateShader_def CompileShader_def compile_source_eq
      glfwWindowShouldClose_eq frame_body_eq frame_calls_def
      working_driver_def GL_FALSE_def emit_eq cout_eq Let_def is_draw_def eval_nat_numeral)

lemma close_checks_frames: "length (filter is_close_check (frames w k)) = k"
  by (induction k) (simp_all add: frames_def frame_calls_def is_close_check_def)

lemma draws_frames: "length (filter is_draw (frames w k)) = k"
  by (induction k) (simp_all add: frames_def frame_calls_def is_draw_def)

lemma gl_apply_frame_calls:
  "foldl gl_apply g (frame_calls w) = g\<lparr>clear_color := (0.2, 0.2, 0.3, 1.0)\<rparr>"
  by (simp add: frame_calls_def)

lemma gl_apply_frames:
  "foldl gl_apply g (frames w k) = (if k = 0 then g else g\<lparr>clear_color := (0.2, 0.2, 0.3, 1.0)\<rparr>)"
proof (induction k arbitrary: g)
  case 0
  show ?case by (simp add: frames_def)
next
  case (Suc k)
  show ?case by (simp add: frames_Suc Suc gl_apply_frame_calls)
qed

section \<open>The shader builder\<close>

text \<open>
  C1. For every shader source whose compile status is reported as \<^verbatim>\<open>GL_FALSE\<close>,
  \<open>CompileShader\<close> is claimed to retrieve the log of the length the driver reports, to
  print a diagnostic that is not empty, to delete the shader object, to return 0 and
  not to crash. The code misses the case of a failed compilation whose log is empty:
  the driver then reports the length 0, \<^verbatim>\<open>alloca(0)\<close> gives a buffer of no bytes,
  \<^verbatim>\<open>glGetShaderInfoLog\<close> writes nothing into it, and \<^verbatim>\<open>std::cout << message\<close> reads a
  string that was never written. The run below reaches that read after the heading has
  been printed; from there on the behaviour of the process is undefined, with the
  shader object not yet deleted and nothing returned.
\<close>

theorem CompileShader_empty_log_is_undefined:
  "CompileShader silent_driver GL_VERTEX_SHADER ''void main() {'' start =
     (Inl UninitialisedRead,
      \<lparr>trace = [GlCreateShader GL_VERTEX_SHADER, GlShaderSource 1 1 [''void main() {''] None,
                GlCompileShader 1, GlGetShaderiv 1 GL_COMPILE_STATUS,
                GlGetShaderiv 1 GL_INFO_LOG_LENGTH, GlGetShaderInfoLog 1 0],
       console = ''(EE) Failed to compile vertexshader:'' @ endl\<rparr>)"
  by (simp add: CompileShader_def compile_source_eq silent_driver_def working_driver_def start_def
      GL_FALSE_def alloca_def glGetShaderInfoLog_write_def emit_eq cout_eq Let_def)

text \<open>
  For a reported length that is positive the function handles the failure in full: it
  asks for the log with the reported length as the size of the buffer, prints the
  heading and the log (as much of it as fits the buffer, up to its first terminator),
  deletes the shader object and returns 0.
\<close>

theorem CompileShader_failed:
  assumes "compile_source d ty src s = ((i, GL_FALSE), s4)"
    and "n = glGetShaderiv_ret d (trace s4 @ [GlGetShaderiv i GL_INFO_LOG_LENGTH])"
    and "0 < sint n"
  shows "CompileShader d ty src s =
           (Inr 0,
            \<lparr>trace = trace s4 @ [GlGetShaderiv i GL_INFO_LOG_LENGTH, GlGetShaderInfoLog i n, GlDeleteShader i],
             console = console s4
               @ ''(EE) Failed to compile '' @ (if ty = GL_VERTEX_SHADER then ''vertex'' else ''fragment'')
               @ ''shader:'' @ endl
               @ takeWhile (\<lambda>c. c \<noteq> NUL)
                   (take (nat (sint n) - 1)
                      (glGetShaderInfoLog_ret d
                         (trace s4 @ [GlGetShaderiv i GL_INFO_LOG_LENGTH, GlGetShaderInfoLog i n])))
               @ endl\<rparr>)"
  using assms
  by (simp add: CompileShader_def Let_def alloca_def message_written emit_eq cout_eq)

theorem CompileShader_failed_witness:
  "CompileShader rejecting_driver GL_FRAGMENT_SHADER ''void main() {'' start =
     (Inr 0,
      \<lparr>trace = [GlCreateShader GL_FRAGMENT_SHADER, GlShaderSource 1 1 [''void main() {''] None,
                GlCompileShader 1, GlGetShaderiv 1 GL_COMPILE_STATUS,
                GlGetShaderiv 1 GL_INFO_LOG_LENGTH, GlGetShaderInfoLog 1 6, GlDeleteShader 1],
       console = ''(EE) Failed to compile fragmentshader:'' @ endl @ ''error'' @ endl\<rparr>)"
proof -
  let ?s4 = "\<lparr>trace = [GlCreateShader GL_FRAGMENT_SHADER, GlShaderSource 1 1 [''void main() {''] None,
                GlCompileShader 1, GlGetShaderiv 1 GL_COMPILE_STATUS], console = []\<rparr>"
  have compiled: "compile_source rejecting_driver GL_FRAGMENT_SHADER ''void main() {'' start
                  = ((1, GL_FALSE), ?s4)"
    by (simp add: compile_source_eq rejecting_driver_def working_driver_def start_def)
  have len: "6 = glGetShaderiv_ret rejecting_driver (trace ?s4 @ [GlGetShaderiv 1 GL_INFO_LOG_LENGTH])"
    by (simp add: rejecting_driver_def GL_macros_distinct)
  have pos: "0 < sint (6 :: GLint)"
    by simp
  from CompileShader_failed [OF compiled len pos] show ?thesis
    by (simp add: rejecting_driver_def GL_macros_distinct NUL_def)
qed

text \<open>
  C2. \<open>CreateShader\<close> does nothing about a failed compilation: when \<open>CompileShader\<close>
  returns the sentinel 0 for the vertex or for the fragment shader, and has not run
  into undefined behaviour, \<open>CreateShader\<close> goes on all the same. It
  attaches the handle 0, links and validates the program, deletes both handles and
  returns the program handle; there is no other path through the function.
\<close>

theorem CreateShader_no_failure_containment:
  assumes "CompileShader d GL_VERTEX_SHADER vertexShader' (emit GlCreateProgram s) = (Inr vs, s2)"
    and "CompileShader d GL_FRAGMENT_SHADER fragmentShader' s2 = (Inr fs, s3)"
    and "vs = 0 \<or> fs = 0"
  shows "CreateShader d vertexShader' fragmentShader' s =
           (Inr (glCreateProgram_ret d (trace s @ [GlCreateProgram])),
            \<lparr>trace = trace s3 @
               [GlAttachShader (glCreateProgram_ret d (trace s @ [GlCreateProgram])) vs,
                GlAttachShader (glCreateProgram_ret d (trace s @ [GlCreateProgram])) fs,
                GlLinkProgram (glCreateProgram_ret d (trace s @ [GlCreateProgram])),
                GlValidateProgram (glCreateProgram_ret d (trace s @ [GlCreateProgram])),
                GlDeleteShader vs, GlDeleteShader fs],
             console = console s3\<rparr>)
         \<and> GlAttachShader (glCreateProgram_ret d (trace s @ [GlCreateProgram])) 0
             \<in> set (trace (snd (CreateShader d vertexShader' fragmentShader' s)))"
  using assms by (auto simp: CreateShader_eq)

theorem CreateShader_no_failure_containment_witness:
  "CreateShader rejecting_driver ''v'' ''f'' start =
     (Inr 1,
      \<lparr>trace = [GlCreateProgram, GlCreateShader GL_VERTEX_SHADER, GlShaderSource 2 1 [''v''] None,
                GlCompileShader 2, GlGetShaderiv 2 GL_COMPILE_STATUS, GlGetShaderiv 2 GL_INFO_LOG_LENGTH,
                GlGetShaderInfoLog 2 6, GlDeleteShader 2,
                GlCreateShader GL_FRAGMENT_SHADER, GlShaderSource 9 1 [''f''] None,
                GlCompileShader 9, GlGetShaderiv 9 GL_COMPILE_STATUS, GlGetShaderiv 9 GL_INFO_LOG_LENGTH,
                GlGetShaderInfoLog 9 6, GlDeleteShader 9,
                GlAttachShader 1 0, GlAttachShader 1 0, GlLinkProgram 1, GlValidateProgram 1,
                GlDeleteShader 0, GlDeleteShader 0],
       console = ''(EE) Failed to compile vertexshader:'' @ endl @ ''error'' @ endl
                 @ ''(EE) Failed to compile fragmentshader:'' @ endl @ ''error'' @ endl\<rparr>)
   \<and> GlAttachShader 1 0 \<in> set (trace (snd (CreateShader rejecting_driver ''v'' ''f'' start)))"
  using CreateShader_no_failure_containment [OF rejecting_vertex rejecting_fragment]
  by (simp add: rejecting_driver_def working_driver_def start_def)

text \<open>
  C4. When both compilations succeed (neither status is \<^verbatim>\<open>GL_FALSE\<close>), \<open>CreateShader\<close>
  attaches the two compiled shaders to one program object, links and validates it,
  deletes both shader objects and returns the handle that \<^verbatim>\<open>glCreateProgram\<close> handed out.
  Nothing is printed.
\<close>

theorem CreateShader_links_compiled_shaders:
  assumes "compile_source d GL_VERTEX_SHADER vertexShader' (emit GlCreateProgram s) = ((vs, r1), s2)"
    and "r1 \<noteq> GL_FALSE"
    and "compile_source d GL_FRAGMENT_SHADER fragmentShader' s2 = ((fs, r2), s3)"
    and "r2 \<noteq> GL_FALSE"
  shows "CreateShader d vertexShader' fragmentShader' s =
           (Inr (glCreateProgram_ret d (trace s @ [GlCreateProgram])),
            \<lparr>trace = trace s3 @
               [GlAttachShader (glCreateProgram_ret d (trace s @ [GlCreateProgram])) vs,
                GlAttachShader (glCreateProgram_ret d (trace s @ [GlCreateProgram])) fs,
                GlLinkProgram (glCreateProgram_ret d (trace s @ [GlCreateProgram])),
                GlValidateProgram (glCreateProgram_ret d (trace s @ [GlCreateProgram])),
                GlDeleteShader vs, GlDeleteShader fs],
             console = console s\<rparr>)"
proof -
  have c1: "CompileShader d GL_VERTEX_SHADER vertexShader' (emit GlCreateProgram s) = (Inr vs, s2)"
    using assms(1,2) by (rule CompileShader_compiled)
  have c2: "CompileShader d GL_FRAGMENT_SHADER fragmentShader' s2 = (Inr fs, s3)"
    using assms(3,4) by (rule CompileShader_compiled)
  have "console s2 = console s"
    using assms(1) by (auto simp: compile_source_eq emit_eq)
  moreover have "console s3 = console s2"
    using assms(3) by (auto simp: compile_source_eq)
  ultimately show ?thesis
    by (simp add: CreateShader_eq [OF c1 c2])
qed

theorem CreateShader_links_compiled_shaders_witness:
  "(1 :: GLint) \<noteq> GL_FALSE \<and>
   CreateShader working_driver vertexShader fragmentShader start =
     (Inr 1,
      \<lparr>trace = [GlCreateProgram, GlCreateShader GL_VERTEX_SHADER, GlShaderSource 2 1 [vertexShader] None,
                GlCompileShader 2, GlGetShaderiv 2 GL_COMPILE_STATUS,
                GlCreateShader GL_FRAGMENT_SHADER, GlShaderSource 6 1 [fragmentShader] None,
                GlCompileShader 6, GlGetShaderiv 6 GL_COMPILE_STATUS,
                GlAttachShader 1 2, GlAttachShader 1 6, GlLinkProgram 1, GlValidateProgram 1,
                GlDeleteShader 2, GlDeleteShader 6],
       console = []\<rparr>)"
proof -
  have ok: "(1 :: GLint) \<noteq> GL_FALSE" by (simp add: GL_FALSE_def)
  from CreateShader_links_compiled_shaders [OF working_vertex ok working_fragment ok] ok
  show ?thesis by (simp add: working_driver_def start_def)
qed

text \<open>
  C8. For the two shader sources embedded in \<open>main\<close>, \<open>CreateShader\<close> is claimed to
  return a handle that is not zero. The function returns whatever \<^verbatim>\<open>glCreateProgram\<close>
  handed out and checks nothing: with a driver that compiles both shaders and creates
  no program object it returns 0.
\<close>

theorem CreateShader_zero_program_counterexample:
  "fst (CreateShader no_program_driver vertexShader fragmentShader start) = Inr 0"
  by (simp add: CreateShader_def CompileShader_def compile_source_eq no_program_driver_def
      working_driver_def start_def GL_FALSE_def emit_eq Let_def)

text \<open>
  C8, as amended. For the two embedded sources, whenever \<open>CreateShader\<close> returns, it
  returns exactly the handle that the driver's \<^verbatim>\<open>glCreateProgram\<close> handed out: a handle
  that is not zero when the driver's answer is not zero, and 0 when the driver's answer
  is 0.
\<close>

theorem CreateShader_returns_created_program:
  assumes "CreateShader d vertexShader fragmentShader s = (Inr program, s')"
  shows "program = glCreateProgram_ret d (trace s @ [GlCreateProgram])
       \<and> (glCreateProgram_ret d (trace s @ [GlCreateProgram]) \<noteq> 0 \<longrightarrow> program \<noteq> 0)
       \<and> (glCreateProgram_ret d (trace s @ [GlCreateProgram]) = 0 \<longrightarrow> program = 0)"
proof -
  from assms have "program = glCreateProgram_ret d (trace s @ [GlCreateProgram])"
    by (auto simp: CreateShader_def Let_def emit_eq split: prod.splits sum.splits)
  then show ?thesis by simp
qed

theorem CreateShader_returns_created_program_witness:
  "CreateShader working_driver vertexShader fragmentShader start =
     (Inr 1, snd (CreateShader working_driver vertexShader fragmentShader start))
   \<and> glCreateProgram_ret working_driver (trace start @ [GlCreateProgram]) = 1
   \<and> (1 :: GLuint) \<noteq> 0
   \<and> CreateShader no_program_driver vertexShader fragmentShader start =
     (Inr 0, snd (CreateShader no_program_driver vertexShader fragmentShader start))
   \<and> glCreateProgram_ret no_program_driver (trace start @ [GlCreateProgram]) = 0"
proof -
  have r1: "CreateShader working_driver vertexShader fragmentShader start =
     (Inr 1, snd (CreateShader working_driver vertexShader fragmentShader start))"
    by (simp add: CreateShader_def CompileShader_def compile_source_eq
        working_driver_def start_def GL_FALSE_def emit_eq Let_def)
  have r0: "CreateShader no_program_driver vertexShader fragmentShader start =
     (Inr 0, snd (CreateShader no_program_driver vertexShader fragmentShader start))"
    by (simp add: CreateShader_def CompileShader_def compile_source_eq no_program_driver_def
        working_driver_def start_def GL_FALSE_def emit_eq Let_def)
  from CreateShader_returns_created_program [OF r1]
  have a: "glCreateProgram_ret working_driver (trace start @ [GlCreateProgram]) = 1"
    by simp
  from CreateShader_returns_created_program [OF r0]
  have b: "glCreateProgram_ret no_program_driver (trace start @ [GlCreateProgram]) = 0"
    by simp
  from r1 r0 a b show ?thesis by simp
qed

section \<open>The frame loop\<close>

text \<open>
  C3. Every iteration of the loop is claimed to clear the colour buffer to a fixed
  colour, to issue one indexed draw of 3 vertices as a triangle list, to present the
  back buffer and to process the pending events. The draw of the source is
  \<^verbatim>\<open>glDrawArrays(GL_TRIANGLES, 0, 3)\<close>, which reads the vertices in the order of the
  bound buffer; the indexed draw of OpenGL is \<^verbatim>\<open>glDrawElements\<close>, and the program has
  no index buffer. An iteration holds one draw, and it is not an indexed one.
\<close>

theorem frame_has_no_indexed_draw_counterexample:
  "filter is_indexed_draw (trace (frame_body (Window 1) start)) = []
   \<and> filter is_draw (trace (frame_body (Window 1) start)) = [GlDrawArrays GL_TRIANGLES 0 3]"
  by (simp add: frame_body_eq frame_calls_def start_def is_indexed_draw_def is_draw_def)

text \<open>
  C3, as amended. Every pass through the body makes exactly these calls in this order:
  \<^verbatim>\<open>glClearColor(0.2, 0.2, 0.3, 1.0)\<close> and \<^verbatim>\<open>glClear(GL_COLOR_BUFFER_BIT)\<close>, one array
  draw (not indexed) of 3 vertices as a triangle list, \<^verbatim>\<open>glfwSwapBuffers\<close> and
  \<^verbatim>\<open>glfwPollEvents\<close>; nothing is printed. Whatever the driver answers and however long
  the loop runs, the calls of the loop are iterations of this shape, each after one
  check of the close flag, and at most the check on which the loop is left after them.
\<close>

theorem frame_iteration_sequence:
  "frame_body window s =
     \<lparr>trace = trace s @
        [GlClearColor 0.2 0.2 0.3 1.0, GlClear GL_COLOR_BUFFER_BIT, GlDrawArrays GL_TRIANGLES 0 3,
         GlfwSwapBuffers window, GlfwPollEvents],
      console = console s\<rparr>
   \<and> \<not> is_indexed_draw (GlDrawArrays GL_TRIANGLES 0 3)
   \<and> (\<exists>k\<le>fuel.
        trace (snd (frame_loop fuel d window s)) =
          trace s
          @ concat (replicate k
              (GlfwWindowShouldClose window #
               [GlClearColor 0.2 0.2 0.3 1.0, GlClear GL_COLOR_BUFFER_BIT, GlDrawArrays GL_TRIANGLES 0 3,
                GlfwSwapBuffers window, GlfwPollEvents]))
          @ (if fst (frame_loop fuel d window s) = Closed then [GlfwWindowShouldClose window] else []))"
proof -
  from frame_loop_trace [of fuel d window s] obtain k where "k \<le> fuel" and
    "frame_loop fuel d window s =
       (Closed, \<lparr>trace = trace s @ frames window k @ [GlfwWindowShouldClose window], console = console s\<rparr>)
     \<or> frame_loop fuel d window s = (Running, \<lparr>trace = trace s @ frames window k, console = console s\<rparr>)"
    by blast
  then have "\<exists>k\<le>fuel. trace (snd (frame_loop fuel d window s)) =
          trace s @ frames window k
          @ (if fst (frame_loop fuel d window s) = Closed then [GlfwWindowShouldClose window] else [])"
    by (intro exI [of _ k]) auto
  then show ?thesis
    by (simp add: frame_body_eq frames_def frame_calls_def is_indexed_draw_def)
qed

text \<open>
  C5. The loop is a machine of two states. Let the window system answer the first \<open>k\<close>
  checks of the close flag with 0 and the next one with a close request. Then the loop
  is still \<open>Running\<close> after every number of iterations up to \<open>k\<close>; with any fuel beyond
  \<open>k\<close> it is left (\<open>Closed\<close>) at check \<open>k + 1\<close>, and \<open>main\<close> goes on to delete the program,
  terminate the library and return 0. The flag is checked once in each iteration, by a
  call in the loop condition: \<open>k\<close> iterations hold \<open>k\<close> checks and \<open>k\<close> draws, and no draw
  is among the calls made from the closing check on.
\<close>

theorem frame_loop_is_a_two_state_machine:
  assumes "\<forall>j<k. glfwWindowShouldClose_ret d (trace s @ frames window j @ [GlfwWindowShouldClose window]) = 0"
    and "glfwWindowShouldClose_ret d (trace s @ frames window k @ [GlfwWindowShouldClose window]) \<noteq> 0"
  shows "(\<forall>fuel\<le>k. frame_loop fuel d window s =
            (Running, \<lparr>trace = trace s @ frames window fuel, console = console s\<rparr>))
       \<and> (\<forall>fuel>k. frame_loop fuel d window s =
            (Closed, \<lparr>trace = trace s @ frames window k @ [GlfwWindowShouldClose window],
                      console = console s\<rparr>))
       \<and> (\<forall>fuel>k. main_loop fuel d window shader s =
            (Returned 0,
             \<lparr>trace = trace s @ frames window k
                        @ [GlfwWindowShouldClose window, GlDeleteProgram shader, GlfwTerminate],
              console = console s\<rparr>))
       \<and> (\<forall>j. length (filter is_close_check (frames window j)) = j)
       \<and> length (filter is_close_check (frames window k @ [GlfwWindowShouldClose window])) = k + 1
       \<and> length (filter is_draw (frames window k)) = k
       \<and> filter is_draw [GlfwWindowShouldClose window, GlDeleteProgram shader, GlfwTerminate] = []"
proof -
  have running: "frame_loop fuel d window s =
            (Running, \<lparr>trace = trace s @ frames window fuel, console = console s\<rparr>)"
    if "fuel \<le> k" for fuel
  proof (rule frame_loop_running)
    show "\<forall>j<fuel. glfwWindowShouldClose_ret d (trace s @ frames window j @ [GlfwWindowShouldClose window]) = 0"
      using assms(1) that by auto
  qed
  have closed: "frame_loop fuel d window s =
            (Closed, \<lparr>trace = trace s @ frames window k @ [GlfwWindowShouldClose window],
                      console = console s\<rparr>)"
    if "k < fuel" for fuel
    using assms that by (rule frame_loop_closed)
  have returned: "main_loop fuel d window shader s =
            (Returned 0,
             \<lparr>trace = trace s @ frames window k
                        @ [GlfwWindowShouldClose window, GlDeleteProgram shader, GlfwTerminate],
              console = console s\<rparr>)"
    if "k < fuel" for fuel
    by (simp add: main_loop_def closed [OF that] emit_eq Let_def)
  have "filter is_draw [GlfwWindowShouldClose window, GlDeleteProgram shader, GlfwTerminate] = []"
    by (simp add: is_draw_def)
  with running closed returned show ?thesis
    by (simp add: close_checks_frames draws_frames is_close_check_def)
qed

theorem frame_loop_is_a_two_state_machine_witness:
  "frame_loop 2 working_driver (Window 1) start =
     (Running, \<lparr>trace = frames (Window 1) 2, console = []\<rparr>)
   \<and> frame_loop 3 working_driver (Window 1) start =
     (Closed, \<lparr>trace = frames (Window 1) 2 @ [GlfwWindowShouldClose (Window 1)], console = []\<rparr>)
   \<and> main_loop 3 working_driver (Window 1) 1 start =
     (Returned 0,
      \<lparr>trace = frames (Window 1) 2 @ [GlfwWindowShouldClose (Window 1), GlDeleteProgram 1, GlfwTerminate],
       console = []\<rparr>)
   \<and> length (filter is_draw (frames (Window 1) 2)) = 2"
proof -
  have open': "\<forall>j<2. glfwWindowShouldClose_ret working_driver
                 (trace start @ frames (Window 1) j @ [GlfwWindowShouldClose (Window 1)]) = 0"
    by (simp add: working_driver_def start_def draws_frames is_draw_def)
  have close: "glfwWindowShouldClose_ret working_driver
                 (trace start @ frames (Window 1) 2 @ [GlfwWindowShouldClose (Window 1)]) \<noteq> 0"
    by (simp add: working_driver_def start_def draws_frames is_draw_def)
  from frame_loop_is_a_two_state_machine [OF open' close, of 1]
  have "frame_loop 2 working_driver (Window 1) start =
          (Running, \<lparr>trace = trace start @ frames (Window 1) 2, console = console start\<rparr>)"
    and "frame_loop 3 working_driver (Window 1) start =
          (Closed, \<lparr>trace = trace start @ frames (Window 1) 2 @ [GlfwWindowShouldClose (Window 1)],
                    console = console start\<rparr>)"
    and "main_loop 3 working_driver (Window 1) 1 start =
          (Returned 0,
           \<lparr>trace = trace start @ frames (Window 1) 2
                      @ [GlfwWindowShouldClose (Window 1), GlDeleteProgram 1, GlfwTerminate],
            console = console start\<rparr>)"
    and "length (filter is_draw (frames (Window 1) 2)) = 2"
    by simp_all
  then show ?thesis by (simp add: start_def)
qed

text \<open>
  C10. No iteration changes what the setup established. The calls of a pass through
  the body are the same whatever the world, and their only effect on the context is to
  set the clear colour to (0.2, 0.2, 0.3, 1.0). So over the calls of any run of the
  loop the buffer bound to \<^verbatim>\<open>GL_ARRAY_BUFFER\<close>, the contents of every buffer, the
  vertex attribute arrays and the program in use stay as they were, and all frames
  consist of the same calls.
\<close>

theorem frames_leave_the_setup_alone:
  "drop (length (trace s)) (trace (frame_body window s)) = frame_calls window
   \<and> foldl gl_apply g (frame_calls window) = g\<lparr>clear_color := (0.2, 0.2, 0.3, 1.0)\<rparr>
   \<and> (\<exists>k\<le>fuel.
        drop (length (trace s)) (trace (snd (frame_loop fuel d window s))) =
          frames window k
          @ (if fst (frame_loop fuel d window s) = Closed then [GlfwWindowShouldClose window] else [])
        \<and> foldl gl_apply g (drop (length (trace s)) (trace (snd (frame_loop fuel d window s)))) =
            (if k = 0 then g else g\<lparr>clear_color := (0.2, 0.2, 0.3, 1.0)\<rparr>))
   \<and> array_buffer (foldl gl_apply g (drop (length (trace s)) (trace (snd (frame_loop fuel d window s)))))
       = array_buffer g
   \<and> buffer_store (foldl gl_apply g (drop (length (trace s)) (trace (snd (frame_loop fuel d window s)))))
       = buffer_store g
   \<and> attrib_enabled (foldl gl_apply g (drop (length (trace s)) (trace (snd (frame_loop fuel d window s)))))
       = attrib_enabled g
   \<and> attrib_pointer (foldl gl_apply g (drop (length (trace s)) (trace (snd (frame_loop fuel d window s)))))
       = attrib_pointer g
   \<and> current_program (foldl gl_apply g (drop (length (trace s)) (trace (snd (frame_loop fuel d window s)))))
       = current_program g"
proof -
  let ?new = "drop (length (trace s)) (trace (snd (frame_loop fuel d window s)))"
  from frame_loop_trace [of fuel d window s] obtain k where k: "k \<le> fuel" and
    "frame_loop fuel d window s =
       (Closed, \<lparr>trace = trace s @ frames window k @ [GlfwWindowShouldClose window], console = console s\<rparr>)
     \<or> frame_loop fuel d window s = (Running, \<lparr>trace = trace s @ frames window k, console = console s\<rparr>)"
    by blast
  then have new: "?new = frames window k
          @ (if fst (frame_loop fuel d window s) = Closed then [GlfwWindowShouldClose window] else [])"
    by auto
  have run: "foldl gl_apply g ?new = (if k = 0 then g else g\<lparr>clear_color := (0.2, 0.2, 0.3, 1.0)\<rparr>)"
    unfolding new by (simp add: gl_apply_frames)
  have loop: "\<exists>k\<le>fuel. ?new = frames window k
          @ (if fst (frame_loop fuel d window s) = Closed then [GlfwWindowShouldClose window] else [])
        \<and> foldl gl_apply g ?new = (if k = 0 then g else g\<lparr>clear_color := (0.2, 0.2, 0.3, 1.0)\<rparr>)"
    using k new run by blast
  have body: "drop (length (trace s)) (trace (frame_body window s)) = frame_calls window"
    by (simp add: frame_body_eq)
  from run have fields:
    "array_buffer (foldl gl_apply g ?new) = array_buffer g"
    "buffer_store (foldl gl_apply g ?new) = buffer_store g"
    "attrib_enabled (foldl gl_apply g ?new) = attrib_enabled g"
    "attrib_pointer (foldl gl_apply g ?new) = attrib_pointer g"
    "current_program (foldl gl_apply g ?new) = current_program g"
    by simp_all
  from body loop fields show ?thesis
    by (simp only: gl_apply_frame_calls simp_thms)
qed

section \<open>Start-up and the vertex buffer\<close>

text \<open>
  C6. The six floats of \<open>positions\<close>, two for each of three points, are uploaded once.
  A run that gets past the start-up (\<open>reaches_setup\<close>) begins with the setup calls in
  their order: a buffer is created and bound under the name \<^verbatim>\<open>glGenBuffers\<close> handed
  out, \<open>positions\<close> is uploaded into it with \<^verbatim>\<open>glBufferData\<close>, and attribute 0 is enabled
  and described as two floats per vertex. Whatever follows holds no further upload, so
  the run uploads exactly once; at every later moment of the run, and so at every draw,
  that buffer is still bound, still holds these six floats and is still read as points
  of two components; and every draw call that follows draws 3 vertices, the number of
  points in the buffer. A run that fails during the start-up neither uploads nor draws.
\<close>

theorem vertex_buffer_uploaded_once_for_three_vertices:
  "length positions = 6 \<and> length positions = 3 * 2
   \<and> 6 * sizeof_float = 3 * (2 * sizeof_float)
   \<and> (case reaches_setup d of
        None \<Rightarrow>
          filter is_upload (trace (snd (main fuel d))) = []
          \<and> filter is_draw (trace (snd (main fuel d))) = []
      | Some window \<Rightarrow>
          filter is_upload (trace (snd (main fuel d))) =
            [GlBufferData GL_ARRAY_BUFFER (6 * sizeof_float) positions GL_STATIC_DRAW]
          \<and> (\<exists>ext.
                trace (snd (main fuel d)) = setup_calls window (generated_buffer d window) @ ext
                \<and> filter is_upload ext = []
                \<and> (\<forall>c \<in> set ext.
                      is_draw c \<longrightarrow> c = GlDrawArrays GL_TRIANGLES 0 (of_nat (length positions div 2)))
                \<and> (\<forall>i g.
                      vertex_buffer_ready
                        (foldl gl_apply g (setup_calls window (generated_buffer d window) @ take i ext))
                        (generated_buffer d window))))"
proof -
  let ?tr = "trace (snd (main fuel d))"
  let ?up = "GlBufferData GL_ARRAY_BUFFER (6 * sizeof_float) positions GL_STATIC_DRAW"
  let ?win = "glfwCreateWindow_ret d [GlfwInit, GlewInit, GlfwCreateWindow 640 480 ''Hello World'' None None]"
  have len: "length positions = 6" by (simp add: positions_def)
  have runs: "case reaches_setup d of
        None \<Rightarrow> filter is_upload ?tr = [] \<and> filter is_draw ?tr = []
      | Some window \<Rightarrow>
          filter is_upload ?tr = [?up]
          \<and> (\<exists>ext.
                ?tr = setup_calls window (generated_buffer d window) @ ext
                \<and> filter is_upload ext = []
                \<and> (\<forall>c \<in> set ext. is_draw c \<longrightarrow> c = GlDrawArrays GL_TRIANGLES 0 3)
                \<and> (\<forall>i g.
                      vertex_buffer_ready
                        (foldl gl_apply g (setup_calls window (generated_buffer d window) @ take i ext))
                        (generated_buffer d window)))"
  proof (cases "glfwInit_ret d [GlfwInit] = 0")
    case True
    then show ?thesis
      by (simp add: reaches_setup_def main_init_failed is_upload_def is_draw_def)
  next
    case init: False
    show ?thesis
    proof (cases ?win)
      case None
      with init show ?thesis
        by (simp add: reaches_setup_def main_window_failed is_upload_def is_draw_def)
    next
      case (Some w)
      show ?thesis
      proof (cases "glGetString_ret d [GlfwInit, GlewInit, GlfwCreateWindow 640 480 ''Hello World'' None None,
           GlfwMakeContextCurrent w, GlewInit, GlGetString GL_VERSION]")
        case None
        with init Some show ?thesis
          by (simp add: reaches_setup_def main_version_null is_upload_def is_draw_def)
      next
        case (Some v)
        let ?buf = "generated_buffer d w"
        from init \<open>?win = Some w\<close> Some have reach: "reaches_setup d = Some w"
          by (simp add: reaches_setup_def)
        from main_started [OF init \<open>?win = Some w\<close> Some, of fuel]
        obtain ext where tr: "?tr = setup_calls w ?buf @ ext" and q: "list_all quiet ext"
          by blast
        have no_upload: "filter is_upload ext = []"
          by (rule filter_quiet_upload [OF q])
        have once: "filter is_upload ?tr = [?up]"
          unfolding tr by (simp add: setup_calls_def is_upload_def no_upload)
        have draws: "\<forall>c\<in>set ext. is_draw c \<longrightarrow> c = GlDrawArrays GL_TRIANGLES 0 3"
          using quiet_draw [OF q] by blast
        have held: "vertex_buffer_ready (foldl gl_apply g (setup_calls w ?buf @ take i ext)) ?buf"
          for i g
          using quiet_list_keeps [OF quiet_take [OF q, where i = i],
                  where g = "foldl gl_apply g (setup_calls w ?buf)"]
          by (simp add: vertex_buffer_ready_def setup_context)
        from once tr no_upload draws held show ?thesis
          unfolding reach by (simp only: option.case) blast
      qed
    qed
  qed
  have three: "(of_nat (length positions div 2) :: GLsizei) = 3"
    by (simp add: len)
  from runs len show ?thesis
    unfolding three by (simp add: sizeof_float_def)
qed

theorem vertex_buffer_uploaded_once_for_three_vertices_witness:
  "reaches_setup working_driver = Some (Window 1)
   \<and> generated_buffer working_driver (Window 1) = 1
   \<and> filter is_upload (trace (snd (main 5 working_driver))) =
        [GlBufferData GL_ARRAY_BUFFER (6 * sizeof_float) positions GL_STATIC_DRAW]
   \<and> take 11 (trace (snd (main 5 working_driver))) = setup_calls (Window 1) 1
   \<and> GlDrawArrays GL_TRIANGLES 0 3 \<in> set (drop 11 (trace (snd (main 5 working_driver))))
   \<and> is_draw (GlDrawArrays GL_TRIANGLES 0 3)
   \<and> GlDrawArrays GL_TRIANGLES 0 3 = GlDrawArrays GL_TRIANGLES 0 (of_nat (length positions div 2))
   \<and> vertex_buffer_ready (foldl gl_apply blank_context (trace (snd (main 5 working_driver)))) 1"
proof -
  let ?tr = "trace (snd (main 5 working_driver))"
  let ?buf = "generated_buffer working_driver (Window 1)"
  have reach: "reaches_setup working_driver = Some (Window 1)"
    by (simp add: reaches_setup_def working_driver_def)
  have buf: "?buf = 1"
    by (simp add: generated_buffer_def working_driver_def)
  note run = vertex_buffer_uploaded_once_for_three_vertices
                [where d = working_driver and fuel = 5, unfolded reach option.case]
  from run have once: "filter is_upload ?tr =
        [GlBufferData GL_ARRAY_BUFFER (6 * sizeof_float) positions GL_STATIC_DRAW]"
    by blast
  from run obtain ext where tr: "?tr = setup_calls (Window 1) ?buf @ ext"
    and draws: "\<forall>c \<in> set ext.
                is_draw c \<longrightarrow> c = GlDrawArrays GL_TRIANGLES 0 (of_nat (length positions div 2))"
    and held: "\<forall>i g. vertex_buffer_ready
                        (foldl gl_apply g (setup_calls (Window 1) ?buf @ take i ext)) ?buf"
    by blast
  from tr have drawn: "GlDrawArrays GL_TRIANGLES 0 3 \<in> set ext"
    by (auto simp: main_working setup_calls_def)
  have len: "length (setup_calls (Window 1) ?buf) = 11"
    by (simp add: setup_calls_def)
  have prefix: "take 11 ?tr = setup_calls (Window 1) ?buf"
    unfolding tr using len by simp
  have suffix: "GlDrawArrays GL_TRIANGLES 0 3 \<in> set (drop 11 ?tr)"
    unfolding tr using len drawn by simp
  have draw: "is_draw (GlDrawArrays GL_TRIANGLES 0 3)"
    by (simp add: is_draw_def)
  from draws drawn draw
  have three: "GlDrawArrays GL_TRIANGLES 0 3 = GlDrawArrays GL_TRIANGLES 0 (of_nat (length positions div 2))"
    by blast
  from held [rule_format, where i = "length ext" and g = blank_context]
  have "vertex_buffer_ready (foldl gl_apply blank_context ?tr) ?buf"
    unfolding tr by simp
  with reach buf once prefix suffix draw three show ?thesis
    by simp
qed

text \<open>
  C7. When \<^verbatim>\<open>glfwCreateWindow\<close> returns \<^verbatim>\<open>NULL\<close>, \<open>main\<close> terminates the library and
  returns -1 before any buffer, shader or draw call. A failure to link or to validate
  is never noticed: \<^verbatim>\<open>glLinkProgram\<close> and \<^verbatim>\<open>glValidateProgram\<close> hand nothing back, the
  source asks the driver nothing about the program, and after the two calls
  \<open>CreateShader\<close> only deletes the shaders and returns the handle it got from
  \<^verbatim>\<open>glCreateProgram\<close>, with nothing printed since the compilations.
\<close>

theorem window_failure_aborts_and_link_is_unchecked:
  "(glfwInit_ret d [GlfwInit] \<noteq> 0
    \<and> glfwCreateWindow_ret d [GlfwInit, GlewInit, GlfwCreateWindow 640 480 ''Hello World'' None None] = None
    \<longrightarrow> main fuel d =
          (Returned (- 1),
           \<lparr>trace = [GlfwInit, GlewInit, GlfwCreateWindow 640 480 ''Hello World'' None None, GlfwTerminate],
            console = []\<rparr>)
        \<and> sint (- 1 :: 32 word) < 0)
   \<and> (CompileShader d GL_VERTEX_SHADER vertexShader' (emit GlCreateProgram s) = (Inr vs, sv)
      \<and> CompileShader d GL_FRAGMENT_SHADER fragmentShader' sv = (Inr fs, sf)
      \<longrightarrow> fst (CreateShader d vertexShader' fragmentShader' s)
            = Inr (glCreateProgram_ret d (trace s @ [GlCreateProgram]))
        \<and> console (snd (CreateShader d vertexShader' fragmentShader' s)) = console sf
        \<and> trace (snd (CreateShader d vertexShader' fragmentShader' s)) =
            trace sf @
            [GlAttachShader (glCreateProgram_ret d (trace s @ [GlCreateProgram])) vs,
             GlAttachShader (glCreateProgram_ret d (trace s @ [GlCreateProgram])) fs,
             GlLinkProgram (glCreateProgram_ret d (trace s @ [GlCreateProgram])),
             GlValidateProgram (glCreateProgram_ret d (trace s @ [GlCreateProgram])),
             GlDeleteShader vs, GlDeleteShader fs])"
  by (auto simp: main_window_failed CreateShader_eq)

theorem window_failure_aborts_and_link_is_unchecked_witness:
  "main 5 no_window_driver =
     (Returned (- 1),
      \<lparr>trace = [GlfwInit, GlewInit, GlfwCreateWindow 640 480 ''Hello World'' None None, GlfwTerminate],
       console = []\<rparr>)
   \<and> fst (CreateShader rejecting_driver ''v'' ''f'' start) = Inr 1
   \<and> console (snd (CreateShader rejecting_driver ''v'' ''f'' start)) =
       ''(EE) Failed to compile vertexshader:'' @ endl @ ''error'' @ endl
       @ ''(EE) Failed to compile fragmentshader:'' @ endl @ ''error'' @ endl
   \<and> trace (snd (CreateShader rejecting_driver ''v'' ''f'' start)) =
       [GlCreateProgram, GlCreateShader GL_VERTEX_SHADER, GlShaderSource 2 1 [''v''] None,
        GlCompileShader 2, GlGetShaderiv 2 GL_COMPILE_STATUS, GlGetShaderiv 2 GL_INFO_LOG_LENGTH,
        GlGetShaderInfoLog 2 6, GlDeleteShader 2,
        GlCreateShader GL_FRAGMENT_SHADER, GlShaderSource 9 1 [''f''] None,
        GlCompileShader 9, GlGetShaderiv 9 GL_COMPILE_STATUS, GlGetShaderiv 9 GL_INFO_LOG_LENGTH,
        GlGetShaderInfoLog 9 6, GlDeleteShader 9,
        GlAttachShader 1 0, GlAttachShader 1 0, GlLinkProgram 1, GlValidateProgram 1,
        GlDeleteShader 0, GlDeleteShader 0]"
proof -
  have init: "glfwInit_ret no_window_driver [GlfwInit] \<noteq> 0"
    by (simp add: no_window_driver_def working_driver_def)
  have win: "glfwCreateWindow_ret no_window_driver
               [GlfwInit, GlewInit, GlfwCreateWindow 640 480 ''Hello World'' None None] = None"
    by (simp add: no_window_driver_def)
  from window_failure_aborts_and_link_is_unchecked [of no_window_driver 5] init win
  have a: "main 5 no_window_driver =
     (Returned (- 1),
      \<lparr>trace = [GlfwInit, GlewInit, GlfwCreateWindow 640 480 ''Hello World'' None None, GlfwTerminate],
       console = []\<rparr>)"
    by blast
  let ?sv = "\<lparr>trace = [GlCreateProgram, GlCreateShader GL_VERTEX_SHADER, GlShaderSource 2 1 [''v''] None,
                GlCompileShader 2, GlGetShaderiv 2 GL_COMPILE_STATUS, GlGetShaderiv 2 GL_INFO_LOG_LENGTH,
                GlGetShaderInfoLog 2 6, GlDeleteShader 2],
       console = ''(EE) Failed to compile vertexshader:'' @ endl @ ''error'' @ endl\<rparr>"
  let ?sf = "\<lparr>trace = [GlCreateProgram, GlCreateShader GL_VERTEX_SHADER, GlShaderSource 2 1 [''v''] None,
                GlCompileShader 2, GlGetShaderiv 2 GL_COMPILE_STATUS, GlGetShaderiv 2 GL_INFO_LOG_LENGTH,
                GlGetShaderInfoLog 2 6, GlDeleteShader 2,
                GlCreateShader GL_FRAGMENT_SHADER, GlShaderSource 9 1 [''f''] None,
                GlCompileShader 9, GlGetShaderiv 9 GL_COMPILE_STATUS, GlGetShaderiv 9 GL_INFO_LOG_LENGTH,
                GlGetShaderInfoLog 9 6, GlDeleteShader 9],
       console = ''(EE) Failed to compile vertexshader:'' @ endl @ ''error'' @ endl
                 @ ''(EE) Failed to compile fragmentshader:'' @ endl @ ''error'' @ endl\<rparr>"
  have compiled: "CompileShader rejecting_driver GL_VERTEX_SHADER ''v'' (emit GlCreateProgram start) = (Inr 0, ?sv)
      \<and> CompileShader rejecting_driver GL_FRAGMENT_SHADER ''f'' ?sv = (Inr 0, ?sf)"
    using rejecting_vertex rejecting_fragment by blast
  have program: "glCreateProgram_ret rejecting_driver (trace start @ [GlCreateProgram]) = 1"
    by (simp add: rejecting_driver_def working_driver_def)
  from window_failure_aborts_and_link_is_unchecked
         [where d = rejecting_driver and vertexShader' = "''v''" and fragmentShader' = "''f''"
            and s = start and vs = 0 and fs = 0 and sv = ?sv and sf = ?sf] compiled
  have "fst (CreateShader rejecting_driver ''v'' ''f'' start)
            = Inr (glCreateProgram_ret rejecting_driver (trace start @ [GlCreateProgram]))
        \<and> console (snd (CreateShader rejecting_driver ''v'' ''f'' start)) = console ?sf
        \<and> trace (snd (CreateShader rejecting_driver ''v'' ''f'' start)) =
            trace ?sf @
            [GlAttachShader (glCreateProgram_ret rejecting_driver (trace start @ [GlCreateProgram])) 0,
             GlAttachShader (glCreateProgram_ret rejecting_driver (trace start @ [GlCreateProgram])) 0,
             GlLinkProgram (glCreateProgram_ret rejecting_driver (trace start @ [GlCreateProgram])),
             GlValidateProgram (glCreateProgram_ret rejecting_driver (trace start @ [GlCreateProgram])),
             GlDeleteShader 0, GlDeleteShader 0]"
    by blast
  with a show ?thesis unfolding program by simp
qed

text \<open>
  C9. The two failures at start-up are handled differently and reported alike. When
  \<^verbatim>\<open>glfwInit\<close> fails, \<open>main\<close> returns -1 at once: \<^verbatim>\<open>glfwInit\<close> is its only call. When the
  window cannot be created, \<open>main\<close> calls \<^verbatim>\<open>glfwTerminate\<close> and then returns the same -1.
\<close>

theorem startup_failures_are_asymmetric:
  "(glfwInit_ret d [GlfwInit] = 0
    \<longrightarrow> main fuel d = (Returned (- 1), \<lparr>trace = [GlfwInit], console = []\<rparr>))
   \<and> (glfwInit_ret d [GlfwInit] \<noteq> 0
      \<and> glfwCreateWindow_ret d [GlfwInit, GlewInit, GlfwCreateWindow 640 480 ''Hello World'' None None] = None
      \<longrightarrow> main fuel d =
            (Returned (- 1),
             \<lparr>trace = [GlfwInit, GlewInit, GlfwCreateWindow 640 480 ''Hello World'' None None, GlfwTerminate],
              console = []\<rparr>))"
  by (simp add: main_init_failed main_window_failed)

theorem startup_failures_are_asymmetric_witness:
  "main 5 no_glfw_driver = (Returned (- 1), \<lparr>trace = [GlfwInit], console = []\<rparr>)
   \<and> main 5 no_window_driver =
       (Returned (- 1),
        \<lparr>trace = [GlfwInit, GlewInit, GlfwCreateWindow 640 480 ''Hello World'' None None, GlfwTerminate],
         console = []\<rparr>)
   \<and> fst (main 5 no_glfw_driver) = fst (main 5 no_window_driver)"
proof -
  have "glfwInit_ret no_glfw_driver [GlfwInit] = 0"
    by (simp add: no_glfw_driver_def)
  with startup_failures_are_asymmetric [of no_glfw_driver 5]
  have a: "main 5 no_glfw_driver = (Returned (- 1), \<lparr>trace = [GlfwInit], console = []\<rparr>)"
    by blast
  have "glfwInit_ret no_window_driver [GlfwInit] \<noteq> 0"
    and "glfwCreateWindow_ret no_window_driver
               [GlfwInit, GlewInit, GlfwCreateWindow 640 480 ''Hello World'' None None] = None"
    by (simp_all add: no_window_driver_def working_driver_def)
  with startup_failures_are_asymmetric [of no_window_driver 5]
  have b: "main 5 no_window_driver =
       (Returned (- 1),
        \<lparr>trace = [GlfwInit, GlewInit, GlfwCreateWindow 640 480 ''Hello World'' None None, GlfwTerminate],
         console = []\<rparr>)"
    by blast
  from a b show ?thesis by simp
qed

text \<open>
  The whole run. When the library initialises, the window is created, the version
  string is there, \<open>CreateShader\<close> returns, and the window system reports the close
  request at the check that follows \<open>k\<close> frames, then \<open>main\<close> with any fuel beyond \<open>k\<close>
  returns 0, after the setup, \<^verbatim>\<open>glUseProgram\<close>, \<open>k\<close> frames, the closing check,
  \<^verbatim>\<open>glDeleteProgram\<close> and \<^verbatim>\<open>glfwTerminate\<close>.
\<close>

theorem main_runs_to_completion:
  assumes init: "glfwInit_ret d [GlfwInit] \<noteq> 0"
    and win: "glfwCreateWindow_ret d [GlfwInit, GlewInit, GlfwCreateWindow 640 480 ''Hello World'' None None]
              = Some window"
    and version: "glGetString_ret d [GlfwInit, GlewInit, GlfwCreateWindow 640 480 ''Hello World'' None None,
              GlfwMakeContextCurrent window, GlewInit, GlGetString GL_VERSION] = Some version"
    and built: "CreateShader d vertexShader fragmentShader
              \<lparr>trace = [GlfwInit, GlewInit, GlfwCreateWindow 640 480 ''Hello World'' None None,
                  GlfwMakeContextCurrent window, GlewInit, GlGetString GL_VERSION,
                  GlGenBuffers 1,
                  GlBindBuffer GL_ARRAY_BUFFER
                    (glGenBuffers_ret d [GlfwInit, GlewInit, GlfwCreateWindow 640 480 ''Hello World'' None None,
                       GlfwMakeContextCurrent window, GlewInit, GlGetString GL_VERSION, GlGenBuffers 1]),
                  GlBufferData GL_ARRAY_BUFFER (6 * sizeof_float) positions GL_STATIC_DRAW,
                  GlEnableVertexAttribArray 0,
                  GlVertexAttribPointer 0 2 GL_FLOAT GL_FALSE (of_nat (2 * sizeof_float)) 0],
               console = version @ endl\<rparr> = (Inr shader, s)"
    and open': "\<forall>j<k. glfwWindowShouldClose_ret d
              (trace s @ [GlUseProgram shader] @ frames window j @ [GlfwWindowShouldClose window]) = 0"
    and close: "glfwWindowShouldClose_ret d
              (trace s @ [GlUseProgram shader] @ frames window k @ [GlfwWindowShouldClose window]) \<noteq> 0"
    and fuel: "k < fuel"
  shows "main fuel d =
           (Returned 0,
            \<lparr>trace = trace s @ [GlUseProgram shader] @ frames window k
                       @ [GlfwWindowShouldClose window, GlDeleteProgram shader, GlfwTerminate],
             console = console s\<rparr>)"
proof -
  let ?s14 = "emit (GlUseProgram shader) s"
  have m: "main fuel d = main_loop fuel d window shader ?s14"
    using init win version built by (simp add: main_def emit_eq cout_eq Let_def)
  have a: "\<forall>j<k. glfwWindowShouldClose_ret d (trace ?s14 @ frames window j @ [GlfwWindowShouldClose window]) = 0"
    using open' by (simp add: emit_eq)
  have b: "glfwWindowShouldClose_ret d (trace ?s14 @ frames window k @ [GlfwWindowShouldClose window]) \<noteq> 0"
    using close by (simp add: emit_eq)
  from frame_loop_closed [OF a b fuel] show ?thesis
    unfolding m by (simp add: main_loop_def emit_eq Let_def)
qed

theorem main_runs_to_completion_witness:
  "main 3 working_driver =
     (Returned 0,
      \<lparr>trace =
         [GlfwInit, GlewInit, GlfwCreateWindow 640 480 ''Hello World'' None None,
          GlfwMakeContextCurrent (Window 1), GlewInit, GlGetString GL_VERSION,
          GlGenBuffers 1, GlBindBuffer GL_ARRAY_BUFFER 1,
          GlBufferData GL_ARRAY_BUFFER (6 * sizeof_float) positions GL_STATIC_DRAW,
          GlEnableVertexAttribArray 0,
          GlVertexAttribPointer 0 2 GL_FLOAT GL_FALSE (of_nat (2 * sizeof_float)) 0,
          GlCreateProgram,
          GlCreateShader GL_VERTEX_SHADER, GlShaderSource 13 1 [vertexShader] None,
          GlCompileShader 13, GlGetShaderiv 13 GL_COMPILE_STATUS,
          GlCreateShader GL_FRAGMENT_SHADER, GlShaderSource 17 1 [fragmentShader] None,
          GlCompileShader 17, GlGetShaderiv 17 GL_COMPILE_STATUS,
          GlAttachShader 1 13, GlAttachShader 1 17, GlLinkProgram 1, GlValidateProgram 1,
          GlDeleteShader 13, GlDeleteShader 17, GlUseProgram 1]
         @ frames (Window 1) 2
         @ [GlfwWindowShouldClose (Window 1), GlDeleteProgram 1, GlfwTerminate],
       console = ''3.3.0'' @ endl\<rparr>)"
proof -
  let ?s = "\<lparr>trace =
         [GlfwInit, GlewInit, GlfwCreateWindow 640 480 ''Hello World'' None None,
          GlfwMakeContextCurrent (Window 1), GlewInit, GlGetString GL_VERSION,
          GlGenBuffers 1, GlBindBuffer GL_ARRAY_BUFFER 1,
          GlBufferData GL_ARRAY_BUFFER (6 * sizeof_float) positions GL_STATIC_DRAW,
          GlEnableVertexAttribArray 0,
          GlVertexAttribPointer 0 2 GL_FLOAT GL_FALSE (of_nat (2 * sizeof_float)) 0,
          GlCreateProgram,
          GlCreateShader GL_VERTEX_SHADER, GlShaderSource 13 1 [vertexShader] None,
          GlCompileShader 13, GlGetShaderiv 13 GL_COMPILE_STATUS,
          GlCreateShader GL_FRAGMENT_SHADER, GlShaderSource 17 1 [fragmentShader] None,
          GlCompileShader 17, GlGetShaderiv 17 GL_COMPILE_STATUS,
          GlAttachShader 1 13, GlAttachShader 1 17, GlLinkProgram 1, GlValidateProgram 1,
          GlDeleteShader 13, GlDeleteShader 17],
       console = ''3.3.0'' @ endl\<rparr>"
  have init: "glfwInit_ret working_driver [GlfwInit] \<noteq> 0"
    by (simp add: working_driver_def)
  have win: "glfwCreateWindow_ret working_driver
               [GlfwInit, GlewInit, GlfwCreateWindow 640 480 ''Hello World'' None None] = Some (Window 1)"
    by (simp add: working_driver_def)
  have version: "glGetString_ret working_driver
               [GlfwInit, GlewInit, GlfwCreateWindow 640 480 ''Hello World'' None None,
                GlfwMakeContextCurrent (Window 1), GlewInit, GlGetString GL_VERSION] = Some ''3.3.0''"
    by (simp add: working_driver_def)
  have built: "CreateShader working_driver vertexShader fragmentShader
              \<lparr>trace = [GlfwInit, GlewInit, GlfwCreateWindow 640 480 ''Hello World'' None None,
                  GlfwMakeContextCurrent (Window 1), GlewInit, GlGetString GL_VERSION,
                  GlGenBuffers 1,
                  GlBindBuffer GL_ARRAY_BUFFER
                    (glGenBuffers_ret working_driver
                      [GlfwInit, GlewInit, GlfwCreateWindow 640 480 ''Hello World'' None None,
                       GlfwMakeContextCurrent (Window 1), GlewInit, GlGetString GL_VERSION, GlGenBuffers 1]),
                  GlBufferData GL_ARRAY_BUFFER (6 * sizeof_float) positions GL_STATIC_DRAW,
                  GlEnableVertexAttribArray 0,
                  GlVertexAttribPointer 0 2 GL_FLOAT GL_FALSE (of_nat (2 * sizeof_float)) 0],
               console = ''3.3.0'' @ endl\<rparr> = (Inr 1, ?s)"
    by (simp add: CreateShader_def CompileShader_def compile_source_eq working_driver_def
        GL_FALSE_def emit_eq Let_def)
  have open': "\<forall>j<2. glfwWindowShouldClose_ret working_driver
              (trace ?s @ [GlUseProgram 1] @ frames (Window 1) j @ [GlfwWindowShouldClose (Window 1)]) = 0"
    by (simp add: working_driver_def draws_frames is_draw_def)
  have close: "glfwWindowShouldClose_ret working_driver
              (trace ?s @ [GlUseProgram 1] @ frames (Window 1) 2 @ [GlfwWindowShouldClose (Window 1)]) \<noteq> 0"
    by (simp add: working_driver_def draws_frames is_draw_def)
  have fuel: "(2 :: nat) < 3" by simp
  from main_runs_to_completion [OF init win version built open' close fuel]
  show ?thesis by simp
qed

end
